theory Spec2Isabelle
  imports Main "HOL-Library.Word" "HOL-Library.Sublist"
begin

unbundle bit_operations_syntax

chapter \<open>dd-trace-cpp: MessagePack writer, agent URL parser and span handle\<close>

text \<open>
  A shallow embedding of three translation units of the tracing library:
  \<^item> \<^verbatim>\<open>src/msgpack.h\<close>: the append-only MessagePack encoder;
  \<^item> \<^verbatim>\<open>src/datadog/http_client.cpp\<close>: \<^verbatim>\<open>HTTPClient::URL::parse\<close>;
  \<^item> \<^verbatim>\<open>src/datadog/span.cpp\<close>: the user-facing span handle.

  Conventions. A \<^verbatim>\<open>Buffer\<close> is the list of bytes appended so far. \<^verbatim>\<open>std::int64_t\<close>,
  \<^verbatim>\<open>std::uint64_t\<close> and \<^verbatim>\<open>std::size_t\<close> are \<open>64 word\<close>; signed comparisons read the
  word with \<open>sint\<close>, unsigned ones use the order of words. A \<^verbatim>\<open>throw\<close> is a result value
  that carries the buffer as it was when the exception left the function. Objects reached
  through pointers live in an explicit store, and a dereference outside it is the result
  \<open>Undefined_behaviour\<close>.
\<close>

section \<open>The MessagePack writer (msgpack.h)\<close>

type_synonym byte = "8 word"
type_synonym buffer = "byte list"

text \<open>
  \<^verbatim>\<open>push_number_big_endian\<close>: the loop
  \<^verbatim>\<open>for (int i = 0; i < size; ++i) buf[i] = (value >> (8 * ((size - 1) - i))) & 0xFF;\<close>
  followed by \<^verbatim>\<open>buffer.append(buf, sizeof buf)\<close>. \<open>push_bytes v sz i\<close> is the part of
  \<^verbatim>\<open>buf\<close> the loop writes from index \<open>i\<close> on; \<open>sz\<close> is \<^verbatim>\<open>sizeof value\<close>.
\<close>

function push_bytes :: "'a::len word \<Rightarrow> nat \<Rightarrow> nat \<Rightarrow> byte list" where
  "push_bytes v sz i =
     (if i < sz
      then ucast (drop_bit (8 * ((sz - 1) - i)) v AND 0xFF) # push_bytes v sz (Suc i)
      else [])"
  by pat_completeness auto
termination
  by (relation "measure (\<lambda>(v, sz, i). sz - i)") auto

declare push_bytes.simps [simp del]

definition push_number_big_endian :: "buffer \<Rightarrow> 'a::len word \<Rightarrow> buffer" where
  "push_number_big_endian buffer integer =
     buffer @ push_bytes integer (LENGTH('a) div 8) 0"

text \<open>
  \<^verbatim>\<open>pack_negative(Buffer&, std::int64_t value)\<close>. The casts
  \<^verbatim>\<open>static_cast<std::int16_t>(value)\<close> and \<^verbatim>\<open>static_cast<std::int32_t>(value)\<close> keep the low
  bits (\<open>ucast\<close> to the narrower word); \<^verbatim>\<open>static_cast<char>(value)\<close> keeps the low byte.
  The last test, \<^verbatim>\<open>value >= numeric_limits<int64_t>::min()\<close>, is kept with its empty
  fall-through.
\<close>

definition pack_negative :: "buffer \<Rightarrow> 64 word \<Rightarrow> buffer" where
  "pack_negative buffer v =
     (if - 32 \<le> sint v then buffer @ [0xE0 OR ucast (v + 32)]
      else if - (2 ^ 7) \<le> sint v then (buffer @ [0xD0]) @ [ucast v]
      else if - (2 ^ 15) \<le> sint v
        then push_number_big_endian (buffer @ [0xD1]) (ucast v :: 16 word)
      else if - (2 ^ 31) \<le> sint v
        then push_number_big_endian (buffer @ [0xD2]) (ucast v :: 32 word)
      else if - (2 ^ 63) \<le> sint v
        then push_number_big_endian (buffer @ [0xD3]) v
      else buffer)"

text \<open>\<^verbatim>\<open>pack_nonnegative(Buffer&, std::uint64_t value)\<close>: unsigned comparisons.\<close>

definition pack_nonnegative :: "buffer \<Rightarrow> 64 word \<Rightarrow> buffer" where
  "pack_nonnegative buffer v =
     (if v \<le> 0x7F then buffer @ [ucast v]
      else if v \<le> 0xFF then (buffer @ [0xCC]) @ [ucast v]
      else if v \<le> 0xFFFF
        then push_number_big_endian (buffer @ [0xCD]) (ucast v :: 16 word)
      else if v \<le> 0xFFFFFFFF
        then push_number_big_endian (buffer @ [0xCE]) (ucast v :: 32 word)
      else if v \<le> 0xFFFFFFFFFFFFFFFF
        then push_number_big_endian (buffer @ [0xCF]) v
      else buffer)"

text \<open>
  \<^verbatim>\<open>pack_integer<Buffer, T>\<close> at \<^verbatim>\<open>T = std::int64_t\<close> (the test \<^verbatim>\<open>value < 0\<close> is signed,
  and the call of \<^verbatim>\<open>pack_nonnegative\<close> converts to \<^verbatim>\<open>std::uint64_t\<close>, which keeps the bits)
  and at \<^verbatim>\<open>T = std::uint64_t\<close> (the test is unsigned and never holds).
\<close>

definition pack_integer :: "buffer \<Rightarrow> 64 word \<Rightarrow> buffer" where
  "pack_integer buffer v =
     (if sint v < 0 then pack_negative buffer v else pack_nonnegative buffer v)"

definition pack_integer_unsigned :: "buffer \<Rightarrow> 64 word \<Rightarrow> buffer" where
  "pack_integer_unsigned buffer v =
     (if v < 0 then pack_negative buffer v else pack_nonnegative buffer v)"

text \<open>
  \<^verbatim>\<open>std::to_string(std::size_t)\<close>: the decimal digits, most significant first, no sign and
  no leading zero.
\<close>

definition digit_char :: "nat \<Rightarrow> char" where
  "digit_char d = ''0123456789'' ! d"

function to_string :: "nat \<Rightarrow> string" where
  "to_string n =
     (if n < 10 then [digit_char n] else to_string (n div 10) @ [digit_char (n mod 10)])"
  by pat_completeness auto
termination
  by (relation "measure id") auto

declare to_string.simps [simp del]

text \<open>
  \<^verbatim>\<open>make_overflow_message\<close>, statement by statement. \<^verbatim>\<open>message += max;\<close> has a
  \<^verbatim>\<open>std::size_t\<close> on the right: the only \<^verbatim>\<open>operator+=\<close> of \<^verbatim>\<open>std::string\<close> that accepts it
  is the one taking a \<^verbatim>\<open>char\<close>, so the value is converted to \<^verbatim>\<open>char\<close> (its low eight bits)
  and one character is appended.
\<close>

definition make_overflow_message :: "string \<Rightarrow> 64 word \<Rightarrow> 64 word \<Rightarrow> string" where
  "make_overflow_message type actual max_size =
     (let message = [];
          message = message @ ''Cannot msgpack encode '';
          message = message @ type;
          message = message @ '' of size '';
          message = message @ to_string (unat actual);
          message = message @ '', which exceeds the protocol maximum of '';
          message = message @ [char_of (unat max_size mod 256)];
          message = message @ [CHR ''.'']
      in message)"

text \<open>\<^verbatim>\<open>std::out_of_range\<close> with its \<^verbatim>\<open>what()\<close> string.\<close>

datatype exn = Out_of_range string

text \<open>
  \<^verbatim>\<open>pack_str\<close>, \<^verbatim>\<open>pack_bin\<close>, \<^verbatim>\<open>pack_array\<close>, \<^verbatim>\<open>pack_map\<close>. The result pairs the exception
  thrown, if any, with the buffer after the call. For the two range overloads
  \<^verbatim>\<open>size = static_cast<size_t>(std::distance(begin, end))\<close> is the length of the range
  as a 64-bit word.
\<close>

definition pack_str :: "buffer \<Rightarrow> byte list \<Rightarrow> exn option \<times> buffer" where
  "pack_str buffer rng =
     (let sz = (of_nat (length rng) :: 64 word) in
      if sz < 32 then (None, (buffer @ [0xA0 OR ucast sz]) @ rng)
      else if sz \<le> 0xFF then (None, ((buffer @ [0xD9]) @ [ucast sz]) @ rng)
      else if sz \<le> 0xFFFF
        then (None, push_number_big_endian (buffer @ [0xDA]) (ucast sz :: 16 word) @ rng)
      else if sz \<le> 0xFFFFFFFF
        then (None, push_number_big_endian (buffer @ [0xDB]) (ucast sz :: 32 word) @ rng)
      else (Some (Out_of_range (make_overflow_message ''string'' sz 0xFFFFFFFF)), buffer))"

definition pack_bin :: "buffer \<Rightarrow> byte list \<Rightarrow> exn option \<times> buffer" where
  "pack_bin buffer rng =
     (let sz = (of_nat (length rng) :: 64 word) in
      if sz \<le> 0xFF then (None, ((buffer @ [0xC4]) @ [ucast sz]) @ rng)
      else if sz \<le> 0xFFFF
        then (None, push_number_big_endian (buffer @ [0xC5]) (ucast sz :: 16 word) @ rng)
      else if sz \<le> 0xFFFFFFFF
        then (None, push_number_big_endian (buffer @ [0xC6]) (ucast sz :: 32 word) @ rng)
      else (Some (Out_of_range (make_overflow_message ''binary'' sz 0xFFFFFFFF)), buffer))"

definition pack_array :: "buffer \<Rightarrow> 64 word \<Rightarrow> exn option \<times> buffer" where
  "pack_array buffer sz =
     (if sz \<le> 15 then (None, buffer @ [0x90 OR ucast sz])
      else if sz \<le> 0xFFFF
        then (None, push_number_big_endian (buffer @ [0xDC]) (ucast sz :: 16 word))
      else if sz \<le> 0xFFFFFFFF
        then (None, push_number_big_endian (buffer @ [0xDD]) (ucast sz :: 32 word))
      else (Some (Out_of_range (make_overflow_message ''array'' sz 0xFFFFFFFF)), buffer))"

definition pack_map :: "buffer \<Rightarrow> 64 word \<Rightarrow> exn option \<times> buffer" where
  "pack_map buffer sz =
     (if sz \<le> 15 then (None, buffer @ [0x80 OR ucast sz])
      else if sz \<le> 0xFFFF
        then (None, push_number_big_endian (buffer @ [0xDE]) (ucast sz :: 16 word))
      else if sz \<le> 0xFFFFFFFF
        then (None, push_number_big_endian (buffer @ [0xDF]) (ucast sz :: 32 word))
      else (Some (Out_of_range (make_overflow_message ''map'' sz 0xFFFFFFFF)), buffer))"

section \<open>Agent URL parsing (http_client.cpp)\<close>

text \<open>
  \<^verbatim>\<open>Expected<HTTPClient::URL>\<close> is \<open>Error + URL\<close>. The error codes are the three that
  \<^verbatim>\<open>parse\<close> returns; an \<^verbatim>\<open>Error\<close> pairs a code with its message.
\<close>

datatype error_code =
  URL_MISSING_SEPARATOR | URL_UNSUPPORTED_SCHEME | URL_UNIX_DOMAIN_SOCKET_PATH_NOT_ABSOLUTE

record Error =
  code :: error_code
  message :: string

record URL =
  scheme :: string
  authority :: string
  path :: string

text \<open>
  Iterators into a string are positions counted from its start; the end iterator is the
  length. \<^verbatim>\<open>std::search\<close> returns the first position where the pattern occurs, the end
  when it occurs nowhere. \<^verbatim>\<open>std::find\<close> returns the first position holding the value, the
  end when there is none. \<^verbatim>\<open>range(b, e)\<close> is the view of the positions from \<open>b\<close> up to \<open>e\<close>.
\<close>

fun std_search :: "'a list \<Rightarrow> 'a list \<Rightarrow> nat" where
  "std_search [] pat = 0"
| "std_search (x # xs) pat =
     (if take (length pat) (x # xs) = pat then 0 else Suc (std_search xs pat))"

fun std_find :: "'a list \<Rightarrow> 'a \<Rightarrow> nat" where
  "std_find [] v = 0"
| "std_find (x # xs) v = (if x = v then 0 else Suc (std_find xs v))"

definition range_sv :: "'a list \<Rightarrow> nat \<Rightarrow> nat \<Rightarrow> 'a list" where
  "range_sv s b e = take (e - b) (drop b s)"

definition supported :: "string list" where
  "supported = [''http'', ''https'', ''unix'', ''http+unix'', ''https+unix'']"

text \<open>
  \<^verbatim>\<open>HTTPClient::URL::parse\<close>, with its three early returns and their messages. The loop
  over \<^verbatim>\<open>supported\<close> that lists the schemes in the message is a left fold.
\<close>

definition parse :: "string \<Rightarrow> Error + URL" where
  "parse input =
     (let separator = ''://'';
          after_scheme = std_search input separator
      in
      if after_scheme = length input then
        (let msg = ''Datadog Agent URL is missing the \"://\" separator: \"'';
             msg = msg @ input;
             msg = msg @ [CHR 0x22]
         in Inl \<lparr>code = URL_MISSING_SEPARATOR, message = msg\<rparr>)
      else
        (let scheme = range_sv input 0 after_scheme;
             found = std_find supported scheme
         in
         if found = length supported then
           (let msg = ''Unsupported URI scheme \"'';
                msg = msg @ scheme;
                msg = msg @ ''\" in Datadog Agent URL \"'';
                msg = msg @ input;
                msg = msg @ ''\". The following are supported:'';
                msg = foldl (\<lambda>m supported_scheme. (m @ [CHR '' '']) @ supported_scheme)
                        msg supported
            in Inl \<lparr>code = URL_UNSUPPORTED_SCHEME, message = msg\<rparr>)
         else
           (let authority_and_path =
                  range_sv input (after_scheme + length separator) (length input)
            in
            if scheme = ''unix'' \<or> scheme = ''http+unix'' \<or> scheme = ''https+unix'' then
              (if authority_and_path = [] \<or> authority_and_path ! 0 \<noteq> CHR ''/'' then
                 (let msg = ''Unix domain socket paths for Datadog Agent must be absolute, i.e. must begin with a \"/\". The path \"'';
                      msg = msg @ authority_and_path;
                      msg = msg @ ''\" is not absolute. Error occurred for URL: \"'';
                      msg = msg @ input;
                      msg = msg @ [CHR 0x22]
                  in Inl \<lparr>code = URL_UNIX_DOMAIN_SOCKET_PATH_NOT_ABSOLUTE, message = msg\<rparr>)
               else Inr \<lparr>scheme = scheme, authority = authority_and_path, path = []\<rparr>)
            else
              (let after_authority = std_find authority_and_path (CHR ''/'')
               in Inr \<lparr>scheme = scheme,
                        authority = range_sv authority_and_path 0 after_authority,
                        path = range_sv authority_and_path after_authority
                                 (length authority_and_path)\<rparr>))))"

section \<open>The span handle (span.cpp)\<close>

datatype 'a outcome = Undefined_behaviour | Returns 'a

subsection \<open>The reserved-key test\<close>

text \<open>
  \<^verbatim>\<open>std::mismatch(first1, last1, first2)\<close>, the overload with three iterators: it advances
  both iterators while \<^verbatim>\<open>first1 != last1 && *first1 == *first2\<close> and never compares
  \<^verbatim>\<open>first2\<close> with an end. \<open>array2\<close> is the character array that \<^verbatim>\<open>first2\<close> points into,
  \<open>i\<close> the position of \<^verbatim>\<open>first2\<close> in it; the result is the position of the second
  iterator returned. A read past the last element of \<open>array2\<close> leaves the array object
  and is undefined.
\<close>

fun std_mismatch :: "string \<Rightarrow> string \<Rightarrow> nat \<Rightarrow> nat outcome" where
  "std_mismatch [] array2 i = Returns i"
| "std_mismatch (c # cs) array2 i =
     (if i < length array2
      then (if c = array2 ! i then std_mismatch cs array2 (Suc i) else Returns i)
      else Undefined_behaviour)"

text \<open>
  A \<^verbatim>\<open>std::string_view\<close> is a pointer into a character array and a size; its iterators
  are pointers. The view made from a string literal points at the literal's array, which
  holds the characters and the terminating zero, and has the size of the characters alone.
\<close>

record string_view =
  array :: string
  view_size :: nat

definition literal :: "string \<Rightarrow> string_view" where
  "literal s = \<lparr>array = s @ [CHR 0x00], view_size = length s\<rparr>"

text \<open>
  \<^verbatim>\<open>starts_with(subject, prefix)\<close>: the size guard, then
  \<^verbatim>\<open>std::mismatch(subject.begin(), subject.end(), prefix.begin()).second == prefix.end()\<close>.
  The subject is read only inside its bounds, so it is a plain string here.
\<close>

definition starts_with :: "string \<Rightarrow> string_view \<Rightarrow> bool outcome" where
  "starts_with subject pre =
     (if view_size pre > length subject then Returns False
      else (case std_mismatch subject (array pre) 0 of
              Undefined_behaviour \<Rightarrow> Undefined_behaviour
            | Returns second \<Rightarrow> Returns (second = view_size pre)))"

definition is_internal_tag :: "string \<Rightarrow> bool outcome" where
  "is_internal_tag tag_name = starts_with tag_name (literal ''_dd.'')"

subsection \<open>Data\<close>

text \<open>
  The counts of \<^verbatim>\<open>std::chrono\<close> time points and durations (\<^verbatim>\<open>span.cpp\<close> names
  \<^verbatim>\<open>std::chrono::steady_clock::time_point\<close>) are signed 64-bit integers: \<open>64 word\<close>, read
  with \<open>sint\<close>. A signed subtraction whose result does not fit in 64 bits is undefined
  behaviour in C++; \<open>chrono_minus\<close> is the subtraction, with that case written out.
\<close>

definition int64_range :: "int \<Rightarrow> bool" where
  "int64_range i \<longleftrightarrow> - (2 ^ 63) \<le> i \<and> i < 2 ^ 63"

definition chrono_minus :: "64 word \<Rightarrow> 64 word \<Rightarrow> 64 word outcome" where
  "chrono_minus a b =
     (if int64_range (sint a - sint b) then Returns (a - b) else Undefined_behaviour)"

text \<open>
  Modelled from the spec: \<^verbatim>\<open>clock.h\<close> is not among the sources. The spec's data model gives
  a time point as wall time plus a monotonic tick, and the duration of a span as a difference
  of ticks.
\<close>

record TimePoint =
  wall :: "64 word"
  tick :: "64 word"

text \<open>
  Modelled from the spec: \<^verbatim>\<open>span_data.h\<close> is not among the sources. The fields are those of
  the spec's data model that \<^verbatim>\<open>span.cpp\<close> reads or writes; the tags are the
  \<^verbatim>\<open>std::unordered_map\<close> from strings to strings.
\<close>

record SpanData =
  trace_id :: "64 word"
  span_id :: "64 word"
  parent_id :: "64 word"
  service :: string
  service_type :: string
  name :: string
  resource :: string
  start :: TimePoint
  duration :: "64 word"
  error :: bool
  tags :: "string \<rightharpoonup> string"

text \<open>
  \<^verbatim>\<open>TraceSegment\<close> (\<^verbatim>\<open>trace_segment.h\<close>), with the members the span handle reaches:
  \<^verbatim>\<open>defaults_\<close>, \<^verbatim>\<open>spans_\<close> (the owning pointers, in registration order) and
  \<^verbatim>\<open>num_finished_spans_\<close>. \<^verbatim>\<open>SpanDefaults\<close> is declared elsewhere and is a type parameter.
  The members lose their trailing underscore, which a constant's name cannot end in.
\<close>

record 'd TraceSegment =
  defaults :: 'd
  spans :: "nat list"
  num_finished_spans :: nat

text \<open>
  The store: the \<^verbatim>\<open>SpanData\<close> objects and the segments, each addressed by its index, and
  the state \<open>ext\<close> behind the injected suppliers (the clock and the id generator), which a
  call of a supplier reads and advances.
\<close>

record ('d, 'e) world =
  heap :: "SpanData list"
  segments :: "'d TraceSegment list"
  ext :: 'e

text \<open>
  The members of \<^verbatim>\<open>Span\<close>: \<^verbatim>\<open>trace_segment_\<close> (a shared pointer, \<open>None\<close> when null),
  \<^verbatim>\<open>data_\<close>, \<^verbatim>\<open>generate_span_id_\<close>, \<^verbatim>\<open>clock_\<close> and \<^verbatim>\<open>end_time_\<close>.
\<close>

record 'e Span =
  trace_segment :: "nat option"
  data :: nat
  generate_span_id :: "'e \<Rightarrow> 64 word \<times> 'e"
  clock :: "'e \<Rightarrow> TimePoint \<times> 'e"
  end_time :: "64 word option"

subsection \<open>Operations\<close>

text \<open>
  Modelled from the spec: \<^verbatim>\<open>trace_segment.cpp\<close> is not among the sources.
  The spec has \<^verbatim>\<open>register_span(data)\<close> append the span to the ordered sequence.
\<close>

definition register_span :: "nat \<Rightarrow> nat \<Rightarrow> ('d, 'e) world \<Rightarrow> ('d, 'e) world" where
  "register_span seg span w =
     w\<lparr>segments := (segments w)
          [seg := (segments w ! seg)\<lparr>spans := spans (segments w ! seg) @ [span]\<rparr>]\<rparr>"

text \<open>
  Modelled from the spec: the difference \<^verbatim>\<open>now - data_->start\<close> of two time points is
  declared in \<^verbatim>\<open>clock.h\<close>; the spec has \<^verbatim>\<open>duration = clock().tick - start.tick\<close>.
\<close>

definition time_point_diff :: "TimePoint \<Rightarrow> TimePoint \<Rightarrow> 64 word outcome" where
  "time_point_diff a b = chrono_minus (tick a) (tick b)"

text \<open>
  \<^verbatim>\<open>Span::~Span\<close>. \<^verbatim>\<open>TraceSegment::span_finished\<close> is defined in \<^verbatim>\<open>trace_segment.cpp\<close>; the
  destructor is modelled for every such function, given as the parameter \<open>span_finished\<close>:
  it receives the segment and the store as the destructor has left it.
\<close>

definition Span_destructor ::
  "(nat \<Rightarrow> ('d, 'e) world \<Rightarrow> ('d, 'e) world) \<Rightarrow> 'e Span \<Rightarrow> ('d, 'e) world
     \<Rightarrow> ('d, 'e) world outcome" where
  "Span_destructor span_finished s w =
     (case trace_segment s of
        None \<Rightarrow> Returns w
      | Some seg \<Rightarrow>
          (case end_time s of
             Some t \<Rightarrow>
               (if data s < length (heap w) then
                  (let d = heap w ! data s in
                   case chrono_minus t (tick (start d)) of
                     Undefined_behaviour \<Rightarrow> Undefined_behaviour
                   | Returns difference \<Rightarrow>
                       (let w = w\<lparr>heap := (heap w)[data s := d\<lparr>duration := difference\<rparr>]\<rparr>
                        in Returns (span_finished seg w)))
                else Undefined_behaviour)
           | None \<Rightarrow>
               (let (now, x) = clock s (ext w);
                    w = w\<lparr>ext := x\<rparr>
                in
                if data s < length (heap w) then
                  (let d = heap w ! data s in
                   case time_point_diff now (start d) of
                     Undefined_behaviour \<Rightarrow> Undefined_behaviour
                   | Returns difference \<Rightarrow>
                       (let w = w\<lparr>heap := (heap w)[data s := d\<lparr>duration := difference\<rparr>]\<rparr>
                        in Returns (span_finished seg w)))
                else Undefined_behaviour)))"

text \<open>
  \<^verbatim>\<open>Span::create_child\<close>. \<^verbatim>\<open>SpanData::apply_config\<close> is defined in \<^verbatim>\<open>span_data.cpp\<close>; the
  parameter \<open>apply_config\<close> stands for \<^verbatim>\<open>std::make_unique<SpanData>()\<close> followed by
  \<^verbatim>\<open>apply_config(defaults, config, clock_)\<close>: from the defaults, the config, the clock and
  the suppliers' state it gives the new object and the state after its calls of the clock.
  The new object takes the next free address of the store.
\<close>

definition create_child ::
  "('d \<Rightarrow> 'c \<Rightarrow> ('e \<Rightarrow> TimePoint \<times> 'e) \<Rightarrow> 'e \<Rightarrow> SpanData \<times> 'e) \<Rightarrow> 'e Span \<Rightarrow> 'c
     \<Rightarrow> ('d, 'e) world \<Rightarrow> ('e Span \<times> ('d, 'e) world) outcome" where
  "create_child apply_config s config w =
     (case trace_segment s of
        None \<Rightarrow> Undefined_behaviour
      | Some seg \<Rightarrow>
          if seg < length (segments w) \<and> data s < length (heap w) then
            (let (span_data, x) =
                   apply_config (defaults (segments w ! seg)) config (clock s) (ext w);
                 span_data = span_data\<lparr>trace_id := trace_id (heap w ! data s)\<rparr>;
                 span_data = span_data\<lparr>parent_id := span_id (heap w ! data s)\<rparr>;
                 (fresh_id, x) = generate_span_id s x;
                 span_data = span_data\<lparr>span_id := fresh_id\<rparr>;
                 span_data_ptr = length (heap w);
                 w = w\<lparr>heap := heap w @ [span_data], ext := x\<rparr>;
                 w = register_span seg span_data_ptr w
             in Returns (\<lparr>trace_segment = Some seg, data = span_data_ptr,
                           generate_span_id = generate_span_id s, clock = clock s,
                           end_time = None\<rparr>, w))
          else Undefined_behaviour)"

text \<open>\<^verbatim>\<open>Span::lookup_tag\<close>, \<^verbatim>\<open>Span::set_tag\<close>, \<^verbatim>\<open>Span::remove_tag\<close>.\<close>

definition lookup_tag :: "'e Span \<Rightarrow> string \<Rightarrow> ('d, 'e) world \<Rightarrow> string option outcome" where
  "lookup_tag s nm w =
     (case is_internal_tag nm of
        Undefined_behaviour \<Rightarrow> Undefined_behaviour
      | Returns True \<Rightarrow> Returns None
      | Returns False \<Rightarrow>
          (if data s < length (heap w)
           then Returns (tags (heap w ! data s) nm)
           else Undefined_behaviour))"

definition set_tag ::
  "'e Span \<Rightarrow> string \<Rightarrow> string \<Rightarrow> ('d, 'e) world \<Rightarrow> ('d, 'e) world outcome" where
  "set_tag s nm v w =
     (case is_internal_tag nm of
        Undefined_behaviour \<Rightarrow> Undefined_behaviour
      | Returns True \<Rightarrow> Returns w
      | Returns False \<Rightarrow>
          (if data s < length (heap w)
           then (let d = heap w ! data s
                 in Returns (w\<lparr>heap := (heap w)
                       [data s := d\<lparr>tags := (tags d)(nm \<mapsto> v)\<rparr>]\<rparr>))
           else Undefined_behaviour))"

definition remove_tag :: "'e Span \<Rightarrow> string \<Rightarrow> ('d, 'e) world \<Rightarrow> ('d, 'e) world outcome" where
  "remove_tag s nm w =
     (case is_internal_tag nm of
        Undefined_behaviour \<Rightarrow> Undefined_behaviour
      | Returns True \<Rightarrow> Returns w
      | Returns False \<Rightarrow>
          (if data s < length (heap w)
           then (let d = heap w ! data s
                 in Returns (w\<lparr>heap := (heap w)
                       [data s := d\<lparr>tags := (tags d)(nm := None)\<rparr>]\<rparr>))
           else Undefined_behaviour))"

text \<open>
  The two overloads of \<^verbatim>\<open>Span::set_error\<close>: \<open>set_error_message\<close> takes the
  \<^verbatim>\<open>std::string_view\<close>, \<open>set_error\<close> the \<^verbatim>\<open>bool\<close>.
\<close>

definition set_error_message ::
  "'e Span \<Rightarrow> string \<Rightarrow> ('d, 'e) world \<Rightarrow> ('d, 'e) world outcome" where
  "set_error_message s msg w =
     (if data s < length (heap w)
      then (let d = heap w ! data s;
                d = d\<lparr>error := True\<rparr>;
                d = d\<lparr>tags := (tags d)(''error.msg'' \<mapsto> msg)\<rparr>
            in Returns (w\<lparr>heap := (heap w)[data s := d]\<rparr>))
      else Undefined_behaviour)"

definition set_error :: "'e Span \<Rightarrow> bool \<Rightarrow> ('d, 'e) world \<Rightarrow> ('d, 'e) world outcome" where
  "set_error s is_error w =
     (if data s < length (heap w)
      then (let d = heap w ! data s;
                d = d\<lparr>error := is_error\<rparr>;
                d = (if \<not> is_error then d\<lparr>tags := (tags d)(''error.msg'' := None)\<rparr> else d)
            in Returns (w\<lparr>heap := (heap w)[data s := d]\<rparr>))
      else Undefined_behaviour)"

definition set_end_time :: "'e Span \<Rightarrow> 64 word \<Rightarrow> 'e Span" where
  "set_end_time s t = s\<lparr>end_time := Some t\<rparr>"

section \<open>What the specification says\<close>

text \<open>
  The specification's integer table, on the mathematical value \<open>v\<close>: negative and at
  least \<open>-32\<close>, \<^verbatim>\<open>NEGATIVE_FIXNUM\<close> \<open>0xE0 | (v+32)\<close>; else within the minimum of
  int8/16/32/64, \<^verbatim>\<open>INT8/16/32/64\<close> with big-endian payload; non-negative and at most
  \<open>0x7F\<close>, \<^verbatim>\<open>POSITIVE_FIXNUM\<close> (the raw byte); else within the maximum of uint8/16/32/64,
  \<^verbatim>\<open>UINT8/16/32/64\<close>. \<open>big_endian n v\<close> is the two's complement of \<open>v\<close> in \<open>n\<close> bytes,
  most significant byte first.
\<close>

definition big_endian :: "nat \<Rightarrow> int \<Rightarrow> byte list" where
  "big_endian n v = map (\<lambda>k. word_of_int (v div 256 ^ k)) (rev [0..<n])"

definition integer_encoding :: "int \<Rightarrow> byte list" where
  "integer_encoding v =
     (if v < 0 then
        (if - 32 \<le> v then [0xE0 OR word_of_int (v + 32)]
         else if - (2 ^ 7) \<le> v then 0xD0 # big_endian 1 v
         else if - (2 ^ 15) \<le> v then 0xD1 # big_endian 2 v
         else if - (2 ^ 31) \<le> v then 0xD2 # big_endian 4 v
         else 0xD3 # big_endian 8 v)
      else
        (if v \<le> 0x7F then [word_of_int v]
         else if v \<le> 2 ^ 8 - 1 then 0xCC # big_endian 1 v
         else if v \<le> 2 ^ 16 - 1 then 0xCD # big_endian 2 v
         else if v \<le> 2 ^ 32 - 1 then 0xCE # big_endian 4 v
         else 0xCF # big_endian 8 v))"

text \<open>
  The text before the first \<^verbatim>\<open>://\<close>: \<open>input\<close> splits into \<open>s\<close>, the separator and \<open>r\<close>,
  and no split of \<open>input\<close> around a separator has a shorter first part.
\<close>

definition first_separator :: "string \<Rightarrow> string \<Rightarrow> string \<Rightarrow> bool" where
  "first_separator input s r \<longleftrightarrow>
     input = s @ ''://'' @ r \<and> (\<forall>p q. input = p @ ''://'' @ q \<longrightarrow> length s \<le> length p)"

text \<open>The characters of a decimal rendering.\<close>

definition digits :: "char set" where
  "digits = set ''0123456789''"

text \<open>
  The spec's invariant that within a segment \<^verbatim>\<open>span.trace_id\<close> is identical for all
  spans: every span registered with the segment \<open>seg\<close> is in the store and has the trace
  id \<open>t\<close>.
\<close>

definition one_trace_id :: "('d, 'e) world \<Rightarrow> nat \<Rightarrow> 64 word \<Rightarrow> bool" where
  "one_trace_id w seg t \<longleftrightarrow>
     (\<forall>p \<in> set (spans (segments w ! seg)). p < length (heap w) \<and> trace_id (heap w ! p) = t)"

text \<open>
  The stores that a segment's store can become by calls of \<open>create_child\<close> on handles of
  spans registered with the segment.
\<close>

inductive children_created ::
  "('d \<Rightarrow> 'c \<Rightarrow> ('e \<Rightarrow> TimePoint \<times> 'e) \<Rightarrow> 'e \<Rightarrow> SpanData \<times> 'e) \<Rightarrow> nat
     \<Rightarrow> ('d, 'e) world \<Rightarrow> ('d, 'e) world \<Rightarrow> bool"
  for apply_config and seg where
  none: "children_created apply_config seg w w"
| child: "children_created apply_config seg w w1 \<Longrightarrow>
          trace_segment s = Some seg \<Longrightarrow>
          data s \<in> set (spans (segments w1 ! seg)) \<Longrightarrow>
          create_child apply_config s config w1 = Returns (c, w2) \<Longrightarrow>
          children_created apply_config seg w w2"

code_pred children_created .

section \<open>A segment with one span, for the examples\<close>

text \<open>
  A root span at address 0 of the store, registered with segment 0. The suppliers' state is
  a counter: the clock's \<open>n\<close>-th reading has tick \<open>90 + n\<close>, the \<open>n\<close>-th generated id is
  \<open>100 + n\<close>. \<open>count_finished\<close> is a \<^verbatim>\<open>span_finished\<close> that does what the spec says first,
  it increments \<^verbatim>\<open>num_finished\<close>. \<open>test_apply_config\<close> takes the operation name as the
  config and reads the clock once for the start.
\<close>

definition root_data :: SpanData where
  "root_data = \<lparr>trace_id = 7, span_id = 7, parent_id = 0, service = ''web'',
     service_type = ''http'', name = ''handle'', resource = ''GET /'',
     start = \<lparr>wall = 1000, tick = 40\<rparr>, duration = 0, error = False,
     tags = [''error.msg'' \<mapsto> ''old'', ''team'' \<mapsto> ''apm'']\<rparr>"

definition test_world :: "(unit, nat) world" where
  "test_world = \<lparr>heap = [root_data],
     segments = [\<lparr>defaults = (), spans = [0], num_finished_spans = 0\<rparr>], ext = 0\<rparr>"

definition test_span :: "nat Span" where
  "test_span = \<lparr>trace_segment = Some 0, data = 0,
     generate_span_id = (\<lambda>x. (of_nat (100 + x), Suc x)),
     clock = (\<lambda>x. (\<lparr>wall = 2000 + of_nat x, tick = 90 + of_nat x\<rparr>, Suc x)),
     end_time = None\<rparr>"

definition count_finished :: "nat \<Rightarrow> ('d, 'e) world \<Rightarrow> ('d, 'e) world" where
  "count_finished seg w =
     w\<lparr>segments := (segments w)
          [seg := (segments w ! seg)
             \<lparr>num_finished_spans := Suc (num_finished_spans (segments w ! seg))\<rparr>]\<rparr>"

definition test_apply_config ::
  "unit \<Rightarrow> string \<Rightarrow> (nat \<Rightarrow> TimePoint \<times> nat) \<Rightarrow> nat \<Rightarrow> SpanData \<times> nat" where
  "test_apply_config d config clk x =
     (let (now, x) = clk x
      in (\<lparr>trace_id = 0, span_id = 0, parent_id = 0, service = ''web'', service_type = ''web'',
           name = config, resource = config, start = now, duration = 0, error = False,
           tags = Map.empty\<rparr>, x))"

text \<open>
  The span data that \<open>create_child\<close> makes on the example segment for the config
  \<^verbatim>\<open>db.query\<close>.
\<close>

definition child_data :: SpanData where
  "child_data = \<lparr>trace_id = 7, span_id = 101, parent_id = 7, service = ''web'',
     service_type = ''web'', name = ''db.query'', resource = ''db.query'',
     start = \<lparr>wall = 2000, tick = 90\<rparr>, duration = 0, error = False, tags = Map.empty\<rparr>"

section \<open>Integers are packed by the narrowest-prefix table\<close>

lemma push_bytes_map:
  "push_bytes v sz i =
     map (\<lambda>j. ucast (drop_bit (8 * ((sz - 1) - j)) v AND 0xFF)) [i..<sz]"
  by (induction v sz i rule: push_bytes.induct)
    (subst push_bytes.simps, simp add: upt_conv_Cons)

lemma div_256_pow: "(x::int) div 256 ^ k = drop_bit (8 * k) x"
proof -
  have "(256::int) ^ k = 2 ^ (8 * k)" by (simp add: power_mult)
  then show ?thesis by (simp add: drop_bit_eq_div)
qed

lemma mask8: "(0xFF :: 'a::len word) = mask 8"
  by (simp add: mask_eq_exp_minus_1)

text \<open>
  Byte \<open>k\<close> of the low bytes of a 64-bit word, read after a cast to a word of at least
  \<open>k + 1\<close> bytes, is byte \<open>k\<close> of its signed value and of its unsigned value.
\<close>

lemma byte_sint:
  fixes v :: "64 word"
  assumes "8 * k + 8 \<le> LENGTH('a::len)" "LENGTH('a) \<le> 64"
  shows "(ucast (drop_bit (8 * k) (ucast v :: 'a word) AND 0xFF) :: byte)
           = word_of_int (sint v div 256 ^ k)"
proof (rule bit_word_eqI)
  fix n :: nat
  assume n: "n < LENGTH(8)"
  have pos: "min 63 (8 * k + n) = 8 * k + n"
    using assms n by simp
  show "bit (ucast (drop_bit (8 * k) (ucast v :: 'a word) AND 0xFF) :: byte) n
      = bit (word_of_int (sint v div 256 ^ k) :: byte) n"
    unfolding div_256_pow mask8
    using assms n by (auto simp add: bit_simps pos)
qed

lemma byte_uint:
  fixes v :: "64 word"
  assumes "8 * k + 8 \<le> LENGTH('a::len)" "LENGTH('a) \<le> 64"
  shows "(ucast (drop_bit (8 * k) (ucast v :: 'a word) AND 0xFF) :: byte)
           = word_of_int (uint v div 256 ^ k)"
  unfolding div_256_pow mask8
  apply (rule bit_word_eqI)
  using assms
  apply (auto simp add: bit_simps min_def)
  done

lemma push_bytes_sint:
  fixes v :: "64 word"
  assumes "8 * n = LENGTH('a::len)" "LENGTH('a) \<le> 64"
  shows "push_bytes (ucast v :: 'a word) n 0 = big_endian n (sint v)"
proof (rule nth_equalityI)
  show "length (push_bytes (ucast v :: 'a word) n 0) = length (big_endian n (sint v))"
    by (simp add: push_bytes_map big_endian_def)
next
  fix i
  assume "i < length (push_bytes (ucast v :: 'a word) n 0)"
  then have i: "i < n" by (simp add: push_bytes_map)
  then have k: "8 * (n - 1 - i) + 8 \<le> LENGTH('a)"
    using assms by simp
  show "push_bytes (ucast v :: 'a word) n 0 ! i = big_endian n (sint v) ! i"
    using i byte_sint [OF k assms(2), of v]
    by (simp add: push_bytes_map big_endian_def rev_nth)
qed

lemma push_bytes_uint:
  fixes v :: "64 word"
  assumes "8 * n = LENGTH('a::len)" "LENGTH('a) \<le> 64"
  shows "push_bytes (ucast v :: 'a word) n 0 = big_endian n (uint v)"
proof (rule nth_equalityI)
  show "length (push_bytes (ucast v :: 'a word) n 0) = length (big_endian n (uint v))"
    by (simp add: push_bytes_map big_endian_def)
next
  fix i
  assume "i < length (push_bytes (ucast v :: 'a word) n 0)"
  then have i: "i < n" by (simp add: push_bytes_map)
  then have k: "8 * (n - 1 - i) + 8 \<le> LENGTH('a)"
    using assms by simp
  show "push_bytes (ucast v :: 'a word) n 0 ! i = big_endian n (uint v) ! i"
    using i byte_uint [OF k assms(2), of v]
    by (simp add: push_bytes_map big_endian_def rev_nth)
qed

lemma push_number_16:
  "push_number_big_endian b (ucast (v :: 64 word) :: 16 word) = b @ big_endian 2 (sint v)"
  by (simp add: push_number_big_endian_def push_bytes_sint)

lemma push_number_32:
  "push_number_big_endian b (ucast (v :: 64 word) :: 32 word) = b @ big_endian 4 (sint v)"
  by (simp add: push_number_big_endian_def push_bytes_sint)

lemma push_number_64:
  "push_number_big_endian b (v :: 64 word) = b @ big_endian 8 (sint v)"
  using push_bytes_sint [where 'a = 64 and v = v and n = 8]
  by (simp add: push_number_big_endian_def)

lemma push_number_16u:
  "push_number_big_endian b (ucast (v :: 64 word) :: 16 word) = b @ big_endian 2 (uint v)"
  by (simp add: push_number_big_endian_def push_bytes_uint)

lemma push_number_32u:
  "push_number_big_endian b (ucast (v :: 64 word) :: 32 word) = b @ big_endian 4 (uint v)"
  by (simp add: push_number_big_endian_def push_bytes_uint)

lemma push_number_64u:
  "push_number_big_endian b (v :: 64 word) = b @ big_endian 8 (uint v)"
  using push_bytes_uint [where 'a = 64 and v = v and n = 8]
  by (simp add: push_number_big_endian_def)

lemma scast_ucast_byte: "(scast (v :: 64 word) :: byte) = ucast v"
  by (rule bit_word_eqI) (auto simp add: bit_simps)

lemma ucast_byte_of_uint: "(ucast (w :: 64 word) :: byte) = word_of_int (uint w)"
  by (rule ucast_eq)

lemma uint_add_32: "uint (v + 32 :: 64 word) = take_bit 64 (uint v + 32)"
  by (simp add: uint_word_ariths take_bit_eq_mod)

lemma byte_of_take_bit_64:
  "(word_of_int (take_bit 64 (uint (v :: 64 word) + 32)) :: byte) = word_of_int (uint v + 32)"
  unfolding word_of_int_eq_iff by simp

lemma ucast_add_byte: "(ucast (v + 32 :: 64 word) :: byte) = ucast v + 32"
proof -
  have "(ucast (v + 32) :: byte) = word_of_int (uint (v + 32))"
    by (rule ucast_byte_of_uint)
  also have "\<dots> = word_of_int (uint v + 32)"
    unfolding uint_add_32 by (rule byte_of_take_bit_64)
  also have "\<dots> = word_of_int (uint v) + 32"
    by (simp del: of_int_uint)
  also have "\<dots> = ucast v + 32"
    unfolding ucast_byte_of_uint [symmetric] by (rule refl)
  finally show ?thesis .
qed

lemma sint_lower: "- 9223372036854775808 \<le> sint (v :: 64 word)"
  using sint_ge [of v] by simp

lemma uint_upper: "uint (v :: 64 word) \<le> 18446744073709551615"
  using uint_lt2p [of v] by simp

lemma sint_nonneg_uint: "\<not> sint (v :: 64 word) < 0 \<Longrightarrow> sint v = uint v"
proof -
  assume "\<not> sint v < 0"
  then have "0 \<le> sint v" by simp
  moreover have "sint v < 2 ^ 64"
    using sint_lt [of v] by simp
  ultimately have "take_bit 64 (sint v) = sint v"
    by (simp add: take_bit_int_eq_self)
  then show ?thesis
    by (simp add: uint_sint [of v])
qed

lemma pack_negative_spec:
  "sint v < 0 \<Longrightarrow> pack_negative b v = b @ integer_encoding (sint v)"
  by (simp add: pack_negative_def integer_encoding_def push_number_16 push_number_32
      push_number_64 big_endian_def sint_lower scast_ucast_byte ucast_add_byte)

lemma pack_nonnegative_spec:
  "pack_nonnegative b v = b @ integer_encoding (uint v)"
  by (simp add: pack_nonnegative_def integer_encoding_def push_number_16u push_number_32u
      push_number_64u big_endian_def word_le_def uint_upper)

text \<open>
  C1. For every 64-bit value, signed (\<open>v\<close>, read with \<open>sint\<close>) or unsigned (\<open>u\<close>, read with
  \<open>uint\<close>), \<open>pack_integer\<close> appends to the buffer exactly the bytes that the
  specification's table gives for the value; and the four examples of the specification:
  \<open>0x7F\<close> gives \<open>[0x7F]\<close>, 128 gives \<open>[0xCC, 0x80]\<close>, \<open>-1\<close> gives \<open>[0xFF]\<close>, \<open>-33\<close> gives
  \<open>[0xD0, 0xDF]\<close>.
\<close>

theorem pack_integer_table:
  "pack_integer b v = b @ integer_encoding (sint v)
   \<and> pack_integer_unsigned b u = b @ integer_encoding (uint u)
   \<and> pack_integer [] 0x7F = [0x7F]
   \<and> pack_integer [] 128 = [0xCC, 0x80]
   \<and> pack_integer [] (- 1) = [0xFF]
   \<and> pack_integer [] (- 33) = [0xD0, 0xDF]"
proof -
  have signed: "pack_integer b v = b @ integer_encoding (sint v)"
    by (simp add: pack_integer_def pack_negative_spec pack_nonnegative_spec sint_nonneg_uint)
  have unsigned: "pack_integer_unsigned b u = b @ integer_encoding (uint u)"
    by (simp add: pack_integer_unsigned_def pack_nonnegative_spec)
  have e1: "pack_integer [] 0x7F = [0x7F]"
    by (simp add: pack_integer_def pack_nonnegative_def)
  have e2: "pack_integer [] 128 = [0xCC, 0x80]"
    by (simp add: pack_integer_def pack_nonnegative_def)
  have e3: "pack_integer [] (- 1) = [0xFF]"
    by (simp add: pack_integer_def pack_negative_def)
  have e4: "pack_integer [] (- 33) = [0xD0, 0xDF]"
    by (simp add: pack_integer_def pack_negative_def)
  from signed unsigned e1 e2 e3 e4 show ?thesis
    by - (intro conjI; assumption)
qed

text \<open>
  The table's branches on values that need the wider encodings, evaluated: a negative value
  below the 16-bit minimum, and an unsigned value above the signed 64-bit maximum.
\<close>

lemma pack_integer_examples:
  "pack_integer [] (- 40000) = [0xD2, 0xFF, 0xFF, 0x63, 0xC0]"
  "pack_integer [] 65536 = [0xCE, 0x00, 0x01, 0x00, 0x00]"
  "pack_integer_unsigned [] 0xFFFFFFFFFFFFFFFE
     = [0xCF, 0xFF, 0xFF, 0xFF, 0xFF, 0xFF, 0xFF, 0xFF, 0xFE]"
  by (simp_all add: pack_integer_def pack_integer_unsigned_def pack_negative_def
      pack_nonnegative_def push_number_big_endian_def push_bytes_map upt_conv_Cons)

section \<open>Overflow of the size prefixes\<close>

lemma size_t_length:
  "length r < 2 ^ 64 \<Longrightarrow> unat (of_nat (length r) :: 64 word) = length r"
  by (simp add: unat_of_nat)

lemma pack_array_overflow:
  "(fst (pack_array b n) \<noteq> None \<longleftrightarrow> 2 ^ 32 - 1 < unat n)
   \<and> (2 ^ 32 - 1 < unat n \<longrightarrow>
        pack_array b n = (Some (Out_of_range (make_overflow_message ''array'' n 0xFFFFFFFF)), b))"
  by (simp add: pack_array_def word_le_nat_alt)

lemma pack_map_overflow:
  "(fst (pack_map b n) \<noteq> None \<longleftrightarrow> 2 ^ 32 - 1 < unat n)
   \<and> (2 ^ 32 - 1 < unat n \<longrightarrow>
        pack_map b n = (Some (Out_of_range (make_overflow_message ''map'' n 0xFFFFFFFF)), b))"
  by (simp add: pack_map_def word_le_nat_alt)

lemma pack_str_overflow:
  assumes "length r < 2 ^ 64"
  shows "(fst (pack_str b r) \<noteq> None \<longleftrightarrow> 2 ^ 32 - 1 < length r)
   \<and> (2 ^ 32 - 1 < length r \<longrightarrow>
        pack_str b r = (Some (Out_of_range
          (make_overflow_message ''string'' (of_nat (length r)) 0xFFFFFFFF)), b))"
  using size_t_length [OF assms]
  by (simp add: pack_str_def Let_def word_le_nat_alt word_less_nat_alt)

lemma pack_bin_overflow:
  assumes "length r < 2 ^ 64"
  shows "(fst (pack_bin b r) \<noteq> None \<longleftrightarrow> 2 ^ 32 - 1 < length r)
   \<and> (2 ^ 32 - 1 < length r \<longrightarrow>
        pack_bin b r = (Some (Out_of_range
          (make_overflow_message ''binary'' (of_nat (length r)) 0xFFFFFFFF)), b))"
  using size_t_length [OF assms]
  by (simp add: pack_bin_def Let_def word_le_nat_alt word_less_nat_alt)

text \<open>
  C2. For a range \<open>r\<close> that fits the address space and for a size \<open>n\<close>, each of
  \<open>pack_str\<close>, \<open>pack_bin\<close>, \<open>pack_array\<close> and \<open>pack_map\<close> throws exactly when the size
  exceeds \<open>2^32 - 1\<close>; what it throws is \<^verbatim>\<open>std::out_of_range\<close> with the overflow message
  for its kind, and the buffer is then the buffer before the call.
\<close>

theorem pack_overflow_threshold:
  assumes "length r < 2 ^ 64"
  shows "(fst (pack_str b r) \<noteq> None \<longleftrightarrow> 2 ^ 32 - 1 < length r)
   \<and> (2 ^ 32 - 1 < length r \<longrightarrow>
        pack_str b r = (Some (Out_of_range
          (make_overflow_message ''string'' (of_nat (length r)) 0xFFFFFFFF)), b))
   \<and> (fst (pack_bin b r) \<noteq> None \<longleftrightarrow> 2 ^ 32 - 1 < length r)
   \<and> (2 ^ 32 - 1 < length r \<longrightarrow>
        pack_bin b r = (Some (Out_of_range
          (make_overflow_message ''binary'' (of_nat (length r)) 0xFFFFFFFF)), b))
   \<and> (fst (pack_array b n) \<noteq> None \<longleftrightarrow> 2 ^ 32 - 1 < unat n)
   \<and> (2 ^ 32 - 1 < unat n \<longrightarrow>
        pack_array b n = (Some (Out_of_range (make_overflow_message ''array'' n 0xFFFFFFFF)), b))
   \<and> (fst (pack_map b n) \<noteq> None \<longleftrightarrow> 2 ^ 32 - 1 < unat n)
   \<and> (2 ^ 32 - 1 < unat n \<longrightarrow>
        pack_map b n = (Some (Out_of_range (make_overflow_message ''map'' n 0xFFFFFFFF)), b))"
  using pack_str_overflow [OF assms, of b] pack_bin_overflow [OF assms, of b]
    pack_array_overflow [of b n] pack_map_overflow [of b n]
  by - (intro conjI; (elim conjE)?; assumption)

lemma overflow_message_at_threshold:
  "make_overflow_message type 4294967296 0xFFFFFFFF =
     ''Cannot msgpack encode '' @ type
       @ '' of size 4294967296, which exceeds the protocol maximum of '' @ [CHR 0xFF, CHR ''.'']"
  by (simp add: make_overflow_message_def to_string.simps digit_char_def char_of_def bit_0)

text \<open>
  The threshold on both sides: at size \<open>2^32\<close> each call throws and leaves the buffer
  \<open>[1, 2]\<close> as it was; at size \<open>2^32 - 1\<close> none throws, and the two headers are the
  32-bit ones.
\<close>

theorem pack_overflow_threshold_witness:
  "length (replicate (2 ^ 32) (0 :: byte)) < 2 ^ 64
   \<and> pack_str [1, 2] (replicate (2 ^ 32) 0) =
       (Some (Out_of_range (''Cannot msgpack encode string of size 4294967296, which exceeds the protocol maximum of '' @ [CHR 0xFF, CHR ''.''])), [1, 2])
   \<and> pack_bin [1, 2] (replicate (2 ^ 32) 0) =
       (Some (Out_of_range (''Cannot msgpack encode binary of size 4294967296, which exceeds the protocol maximum of '' @ [CHR 0xFF, CHR ''.''])), [1, 2])
   \<and> pack_array [1, 2] (2 ^ 32) =
       (Some (Out_of_range (''Cannot msgpack encode array of size 4294967296, which exceeds the protocol maximum of '' @ [CHR 0xFF, CHR ''.''])), [1, 2])
   \<and> pack_map [1, 2] (2 ^ 32) =
       (Some (Out_of_range (''Cannot msgpack encode map of size 4294967296, which exceeds the protocol maximum of '' @ [CHR 0xFF, CHR ''.''])), [1, 2])
   \<and> length (replicate (2 ^ 32 - 1) (0 :: byte)) < 2 ^ 64
   \<and> fst (pack_str [1, 2] (replicate (2 ^ 32 - 1) 0)) = None
   \<and> fst (pack_bin [1, 2] (replicate (2 ^ 32 - 1) 0)) = None
   \<and> pack_array [1, 2] (2 ^ 32 - 1) = (None, [1, 2, 0xDD, 0xFF, 0xFF, 0xFF, 0xFF])
   \<and> pack_map [1, 2] (2 ^ 32 - 1) = (None, [1, 2, 0xDF, 0xFF, 0xFF, 0xFF, 0xFF])"
proof -
  have 1: "length (replicate (2 ^ 32) (0 :: byte)) < 2 ^ 64" by simp
  have 2: "length (replicate (2 ^ 32 - 1) (0 :: byte)) < 2 ^ 64" by simp
  note over = pack_overflow_threshold [OF 1, of "[1, 2]" "2 ^ 32"]
  note under = pack_overflow_threshold [OF 2, of "[1, 2]" "2 ^ 32 - 1"]
  have a: "pack_array [1, 2] (2 ^ 32 - 1) = (None, [1, 2, 0xDD, 0xFF, 0xFF, 0xFF, 0xFF])"
    by (simp add: pack_array_def push_number_big_endian_def push_bytes_map upt_conv_Cons)
  have m: "pack_map [1, 2] (2 ^ 32 - 1) = (None, [1, 2, 0xDF, 0xFF, 0xFF, 0xFF, 0xFF])"
    by (simp add: pack_map_def push_number_big_endian_def push_bytes_map upt_conv_Cons)
  show ?thesis
    using 1 2 over under a m
    by (simp add: overflow_message_at_threshold)
qed

section \<open>The overflow message\<close>

lemma digit_char_digit: "d < 10 \<Longrightarrow> digit_char d \<in> digits"
  unfolding digit_char_def digits_def by (rule nth_mem) simp

lemma digits_code: "c \<in> digits \<Longrightarrow> (48::nat) \<le> of_char c"
  by (auto simp add: digits_def)

lemma to_string_digits: "set (to_string n) \<subseteq> digits"
proof (induction n rule: to_string.induct)
  case (1 n)
  show ?case
  proof (cases "n < 10")
    case True
    then show ?thesis
      by (subst to_string.simps) (simp add: digit_char_digit)
  next
    case False
    with 1 show ?thesis
      by (subst to_string.simps) (simp add: digit_char_digit)
  qed
qed

lemma to_string_nonempty: "to_string n \<noteq> []"
  by (subst to_string.simps) simp

lemma to_string_not_char: "to_string m \<noteq> [char_of (m mod 256)]"
proof (cases "m < 10")
  case True
  have "digit_char m \<noteq> char_of m"
  proof
    assume e: "digit_char m = char_of m"
    have "(48::nat) \<le> of_char (digit_char m)"
      by (rule digits_code [OF digit_char_digit [OF True]])
    with e have "(48::nat) \<le> m mod 256" by simp
    with True show False by simp
  qed
  with True show ?thesis
    by (subst to_string.simps) simp
next
  case False
  then show ?thesis
    using to_string_nonempty [of "m div 10"]
    by (subst to_string.simps) simp
qed

text \<open>
  A run of digits inside a text lies on one side of every character that is not a digit.
\<close>

lemma sublist_skip:
  "set D \<subseteq> digits \<Longrightarrow> D \<noteq> [] \<Longrightarrow> y \<notin> digits \<Longrightarrow> sublist D (y # ys) = sublist D ys"
  by (cases D) (auto simp add: sublist_Cons_right)

lemma prefix_separator:
  assumes "y \<notin> set D"
  shows "prefix D (X @ y # Y) \<longleftrightarrow> prefix D X"
proof
  assume "prefix D (X @ y # Y)"
  then have "prefix D X \<or> (\<exists>us. D = X @ us \<and> prefix us (y # Y))"
    by (auto simp add: prefix_append)
  with assms show "prefix D X"
    by (auto simp add: prefix_Cons)
next
  assume "prefix D X"
  then show "prefix D (X @ y # Y)" by (rule prefix_prefix)
qed

lemma sublist_separator:
  assumes "set D \<subseteq> digits" "D \<noteq> []" "y \<notin> digits"
  shows "sublist D (X @ y # Y) \<longleftrightarrow> sublist D X \<or> sublist D Y"
proof (induction X)
  case Nil
  from assms show ?case by (simp add: sublist_skip)
next
  case (Cons x X)
  from assms have "y \<notin> set D" by blast
  from prefix_separator [OF this, of "x # X" Y]
  have "prefix D (x # X @ y # Y) \<longleftrightarrow> prefix D (x # X)" by simp
  with Cons show ?case
    by (auto simp add: sublist_Cons_right)
qed

lemma sublist_last_char:
  assumes "set D \<subseteq> digits" "D \<noteq> []" "D \<noteq> [c]"
  shows "\<not> sublist D [c, CHR ''.'']"
proof
  assume "sublist D [c, CHR ''.'']"
  then have "prefix D [c, CHR ''.''] \<or> prefix D [CHR ''.'']"
    using assms(2) by (auto simp add: sublist_Cons_right)
  then have "CHR ''.'' \<in> set D"
    using assms(2,3) by (auto simp add: prefix_Cons)
  with assms(1) show False
    by (auto simp add: digits_def)
qed

lemma overflow_message_digits:
  assumes "set D \<subseteq> digits" "D \<noteq> []" "D \<noteq> [char_of (unat m mod 256)]"
  shows "sublist D (make_overflow_message t a m) \<longleftrightarrow>
           sublist D t \<or> sublist D (to_string (unat a))"
proof -
  note skip = sublist_skip [OF assms(1,2)] and sep = sublist_separator [OF assms(1,2)]
  have last: "\<not> sublist D [char_of (unat m), CHR ''.'']"
    using sublist_last_char [OF assms(1,2)] assms(3) by simp
  show ?thesis
    unfolding make_overflow_message_def Let_def
    by (simp add: skip sep last digits_def)
qed

text \<open>
  C9, as stated, fails: packing an array header of size 42949672950 throws a message that
  contains the decimal rendering 4294967295 of the maximum, as the first ten digits of
  the size.
\<close>

theorem overflow_message_contains_max:
  "make_overflow_message ''array'' 42949672950 4294967295 =
     ''Cannot msgpack encode array of size 42949672950, which exceeds the protocol maximum of ''
       @ [CHR 0xFF, CHR ''.'']
   \<and> to_string (unat (4294967295 :: 64 word)) = ''4294967295''
   \<and> sublist (to_string (unat (4294967295 :: 64 word)))
        (make_overflow_message ''array'' 42949672950 4294967295)"
proof -
  have m: "make_overflow_message ''array'' 42949672950 4294967295 =
     ''Cannot msgpack encode array of size 42949672950, which exceeds the protocol maximum of ''
       @ [CHR 0xFF, CHR ''.'']"
    by (simp add: make_overflow_message_def to_string.simps digit_char_def char_of_def bit_0)
  have d: "to_string (unat (4294967295 :: 64 word)) = ''4294967295''"
    by (simp add: to_string.simps digit_char_def)
  have "''Cannot msgpack encode array of size 42949672950, which exceeds the protocol maximum of ''
       @ [CHR 0xFF, CHR ''.'']
     = ''Cannot msgpack encode array of size '' @ ''4294967295''
       @ (''0, which exceeds the protocol maximum of '' @ [CHR 0xFF, CHR ''.''])"
    by simp
  then have "sublist ''4294967295''
     (''Cannot msgpack encode array of size 42949672950, which exceeds the protocol maximum of ''
       @ [CHR 0xFF, CHR ''.''])"
    unfolding sublist_def by blast
  with m d show ?thesis by simp
qed

text \<open>
  C9, amended. For every type name \<open>t\<close>, size \<open>actual\<close> and maximum \<open>max_size\<close> the
  message is the fixed text around \<open>t\<close>, the decimal rendering of \<open>actual\<close> and, where
  the maximum belongs, the single character of code \<open>max_size mod 256\<close> (\<open>0xFF\<close> for
  \<open>2^32 - 1\<close>); that character is never the decimal rendering of \<open>max_size\<close>; the message
  contains the decimal rendering of \<open>actual\<close>; and it contains the decimal rendering of
  \<open>max_size\<close> exactly when \<open>t\<close> or the decimal rendering of \<open>actual\<close> contains it.
\<close>

theorem overflow_message_shape:
  "make_overflow_message t actual max_size =
     ''Cannot msgpack encode '' @ t @ '' of size '' @ to_string (unat actual)
       @ '', which exceeds the protocol maximum of ''
       @ [char_of (unat max_size mod 256), CHR ''.'']
   \<and> sublist (to_string (unat actual)) (make_overflow_message t actual max_size)
   \<and> to_string (unat max_size) \<noteq> [char_of (unat max_size mod 256)]
   \<and> (sublist (to_string (unat max_size)) (make_overflow_message t actual max_size) \<longleftrightarrow>
        sublist (to_string (unat max_size)) t
        \<or> sublist (to_string (unat max_size)) (to_string (unat actual)))
   \<and> char_of (unat (0xFFFFFFFF :: 64 word) mod 256) = CHR 0xFF"
proof -
  have shape: "make_overflow_message t actual max_size =
     ''Cannot msgpack encode '' @ t @ '' of size '' @ to_string (unat actual)
       @ '', which exceeds the protocol maximum of ''
       @ [char_of (unat max_size mod 256), CHR ''.'']"
    by (simp add: make_overflow_message_def)
  have "sublist (to_string (unat actual))
     ((''Cannot msgpack encode '' @ t @ '' of size '') @ to_string (unat actual)
       @ ('', which exceeds the protocol maximum of ''
       @ [char_of (unat max_size mod 256), CHR ''.'']))"
    by (rule sublist_appendI)
  with shape have actual: "sublist (to_string (unat actual)) (make_overflow_message t actual max_size)"
    by simp
  have one: "to_string (unat max_size) \<noteq> [char_of (unat max_size mod 256)]"
    by (rule to_string_not_char)
  have iff: "sublist (to_string (unat max_size)) (make_overflow_message t actual max_size) \<longleftrightarrow>
        sublist (to_string (unat max_size)) t
        \<or> sublist (to_string (unat max_size)) (to_string (unat actual))"
    by (rule overflow_message_digits [OF to_string_digits to_string_nonempty one])
  have ff: "char_of (unat (0xFFFFFFFF :: 64 word) mod 256) = CHR 0xFF"
    by (simp add: char_of_def bit_0)
  from shape actual one iff ff show ?thesis
    by - (intro conjI; assumption)
qed

section \<open>Parsing the agent URL\<close>

lemma std_search_le: "std_search xs pat \<le> length xs"
  by (induction xs) auto

lemma std_search_found:
  "std_search xs pat < length xs \<Longrightarrow> take (length pat) (drop (std_search xs pat) xs) = pat"
  by (induction xs) (auto split: if_splits)

lemma std_search_first:
  "xs = pre @ pat @ post \<Longrightarrow> pat \<noteq> [] \<Longrightarrow> std_search xs pat \<le> length pre"
proof (induction xs arbitrary: pre)
  case Nil
  then show ?case by simp
next
  case (Cons x xs)
  show ?case
  proof (cases pre)
    case Nil
    with Cons.prems have "take (length pat) (x # xs) = pat" by simp
    then show ?thesis by simp
  next
    case (Cons p pre')
    with Cons.prems have "xs = pre' @ pat @ post" by simp
    from Cons.IH [OF this Cons.prems(2)] Cons show ?thesis by simp
  qed
qed

lemma std_search_none:
  assumes "pat \<noteq> []"
  shows "std_search xs pat = length xs \<longleftrightarrow> \<not> (\<exists>pre post. xs = pre @ pat @ post)"
proof
  assume e: "std_search xs pat = length xs"
  show "\<not> (\<exists>pre post. xs = pre @ pat @ post)"
  proof
    assume "\<exists>pre post. xs = pre @ pat @ post"
    then obtain pre post where d: "xs = pre @ pat @ post" by blast
    from std_search_first [OF d assms] have "std_search xs pat \<le> length pre" .
    with e d assms show False by (cases pat) auto
  qed
next
  assume n: "\<not> (\<exists>pre post. xs = pre @ pat @ post)"
  show "std_search xs pat = length xs"
  proof (rule ccontr)
    assume "std_search xs pat \<noteq> length xs"
    with std_search_le [of xs pat] have lt: "std_search xs pat < length xs" by simp
    let ?k = "std_search xs pat"
    have "xs = take ?k xs @ take (length pat) (drop ?k xs) @ drop (length pat) (drop ?k xs)"
      by (simp only: append_take_drop_id)
    with std_search_found [OF lt] have "xs = take ?k xs @ pat @ drop (length pat) (drop ?k xs)"
      by simp
    with n show False by blast
  qed
qed

lemma std_search_at:
  assumes d: "xs = pre @ pat @ post" and ne: "pat \<noteq> []"
    and first: "\<forall>p q. xs = p @ pat @ q \<longrightarrow> length pre \<le> length p"
  shows "std_search xs pat = length pre"
proof -
  let ?k = "std_search xs pat"
  have le: "?k \<le> length pre" by (rule std_search_first [OF d ne])
  with d ne have lt: "?k < length xs" by (cases pat) auto
  have "xs = take ?k xs @ take (length pat) (drop ?k xs) @ drop (length pat) (drop ?k xs)"
    by (simp only: append_take_drop_id)
  with std_search_found [OF lt] have "xs = take ?k xs @ pat @ drop (length pat) (drop ?k xs)"
    by simp
  with first have "length pre \<le> length (take ?k xs)" by blast
  with le lt show ?thesis by simp
qed

lemma std_find_le: "std_find xs v \<le> length xs"
  by (induction xs) auto

lemma std_find_end: "std_find xs v = length xs \<longleftrightarrow> v \<notin> set xs"
  by (induction xs) auto

lemma std_find_takeWhile: "take (std_find xs v) xs = takeWhile (\<lambda>c. c \<noteq> v) xs"
  by (induction xs) auto

lemma std_find_dropWhile: "drop (std_find xs v) xs = dropWhile (\<lambda>c. c \<noteq> v) xs"
  by (induction xs) auto

lemma first_separator_search:
  "first_separator input s r \<longleftrightarrow> input = s @ ''://'' @ r \<and> std_search input ''://'' = length s"
proof
  assume "first_separator input s r"
  then show "input = s @ ''://'' @ r \<and> std_search input ''://'' = length s"
    using std_search_at [of input s "''://''" r]
    by (simp add: first_separator_def)
next
  assume a: "input = s @ ''://'' @ r \<and> std_search input ''://'' = length s"
  then have d: "input = s @ ''://'' @ r" and k: "std_search input ''://'' = length s"
    by blast+
  have "length s \<le> length p" if "input = p @ ''://'' @ q" for p q
    using std_search_first [OF that] k by simp
  with d show "first_separator input s r"
    unfolding first_separator_def by blast
qed

lemma parse_missing:
  "std_search input ''://'' = length input \<Longrightarrow>
     \<exists>m. parse input = Inl \<lparr>code = URL_MISSING_SEPARATOR, message = m\<rparr>"
  by (simp add: parse_def)

lemma parse_found:
  "std_search input ''://'' \<noteq> length input \<Longrightarrow>
     \<not> (\<exists>m. parse input = Inl \<lparr>code = URL_MISSING_SEPARATOR, message = m\<rparr>)"
  by (simp add: parse_def Let_def)

lemma parse_split:
  assumes "input = s @ ''://'' @ r" "std_search input ''://'' = length s"
  shows "\<exists>m1 m2. parse input =
     (if std_find supported s = length supported
      then Inl \<lparr>code = URL_UNSUPPORTED_SCHEME, message = m1\<rparr>
      else if s = ''unix'' \<or> s = ''http+unix'' \<or> s = ''https+unix''
      then (if r = [] \<or> r ! 0 \<noteq> CHR ''/''
            then Inl \<lparr>code = URL_UNIX_DOMAIN_SOCKET_PATH_NOT_ABSOLUTE, message = m2\<rparr>
            else Inr \<lparr>scheme = s, authority = r, path = []\<rparr>)
      else Inr \<lparr>scheme = s, authority = range_sv r 0 (std_find r (CHR ''/'')),
                 path = range_sv r (std_find r (CHR ''/'')) (length r)\<rparr>)"
proof -
  have 1: "length s \<noteq> length input"
    using assms by simp
  have 2: "range_sv input 0 (length s) = s"
    using assms(1) by (simp add: range_sv_def)
  have 3: "range_sv input (length s + length ''://'') (length input) = r"
    using assms(1) by (simp add: range_sv_def)
  show ?thesis
    unfolding parse_def Let_def assms(2) 2 3
    using 1 by (simp only: if_False) auto
qed

lemma range_sv_take: "range_sv r 0 k = take k r"
  by (simp add: range_sv_def)

lemma range_sv_drop: "range_sv r k (length r) = drop k r"
  by (simp add: range_sv_def)

lemma supported_set:
  "std_find supported s = length supported \<longleftrightarrow>
     s \<notin> {''http'', ''https'', ''unix'', ''http+unix'', ''https+unix''}"
  by (simp add: std_find_end supported_def)

lemma parse_cases:
  assumes "first_separator input s r"
  shows "((\<exists>m. parse input = Inl \<lparr>code = URL_UNSUPPORTED_SCHEME, message = m\<rparr>) \<longleftrightarrow>
           s \<notin> {''http'', ''https'', ''unix'', ''http+unix'', ''https+unix''})"
    and "s \<in> {''unix'', ''http+unix'', ''https+unix''} \<Longrightarrow>
           ((\<exists>m. parse input =
               Inl \<lparr>code = URL_UNIX_DOMAIN_SOCKET_PATH_NOT_ABSOLUTE, message = m\<rparr>) \<longleftrightarrow>
            (r = [] \<or> hd r \<noteq> CHR ''/''))"
    and "s \<in> {''unix'', ''http+unix'', ''https+unix''} \<Longrightarrow> \<not> (r = [] \<or> hd r \<noteq> CHR ''/'') \<Longrightarrow>
           parse input = Inr \<lparr>scheme = s, authority = r, path = []\<rparr>"
    and "s \<in> {''http'', ''https''} \<Longrightarrow>
           parse input = Inr \<lparr>scheme = s, authority = takeWhile (\<lambda>c. c \<noteq> CHR ''/'') r,
                              path = dropWhile (\<lambda>c. c \<noteq> CHR ''/'') r\<rparr>"
proof -
  from assms have d: "input = s @ ''://'' @ r" and k: "std_search input ''://'' = length s"
    unfolding first_separator_search by blast+
  from parse_split [OF d k] obtain m1 m2 where p: "parse input =
     (if std_find supported s = length supported
      then Inl \<lparr>code = URL_UNSUPPORTED_SCHEME, message = m1\<rparr>
      else if s = ''unix'' \<or> s = ''http+unix'' \<or> s = ''https+unix''
      then (if r = [] \<or> r ! 0 \<noteq> CHR ''/''
            then Inl \<lparr>code = URL_UNIX_DOMAIN_SOCKET_PATH_NOT_ABSOLUTE, message = m2\<rparr>
            else Inr \<lparr>scheme = s, authority = r, path = []\<rparr>)
      else Inr \<lparr>scheme = s, authority = range_sv r 0 (std_find r (CHR ''/'')),
                 path = range_sv r (std_find r (CHR ''/'')) (length r)\<rparr>)"
    by blast
  have hd: "r \<noteq> [] \<Longrightarrow> r ! 0 = hd r"
    by (simp add: hd_conv_nth)
  show "((\<exists>m. parse input = Inl \<lparr>code = URL_UNSUPPORTED_SCHEME, message = m\<rparr>) \<longleftrightarrow>
           s \<notin> {''http'', ''https'', ''unix'', ''http+unix'', ''https+unix''})"
    unfolding p supported_set by auto
  show "((\<exists>m. parse input =
               Inl \<lparr>code = URL_UNIX_DOMAIN_SOCKET_PATH_NOT_ABSOLUTE, message = m\<rparr>) \<longleftrightarrow>
            (r = [] \<or> hd r \<noteq> CHR ''/''))"
    if "s \<in> {''unix'', ''http+unix'', ''https+unix''}"
    unfolding p supported_set using that hd by auto
  show "parse input = Inr \<lparr>scheme = s, authority = r, path = []\<rparr>"
    if "s \<in> {''unix'', ''http+unix'', ''https+unix''}" "\<not> (r = [] \<or> hd r \<noteq> CHR ''/'')"
    unfolding p supported_set using that hd by auto
  show "parse input = Inr \<lparr>scheme = s, authority = takeWhile (\<lambda>c. c \<noteq> CHR ''/'') r,
                              path = dropWhile (\<lambda>c. c \<noteq> CHR ''/'') r\<rparr>"
    if "s \<in> {''http'', ''https''}"
    unfolding p supported_set range_sv_take range_sv_drop std_find_takeWhile std_find_dropWhile
    using that by auto
qed

text \<open>
  C3. \<open>parse\<close> is a total function into \<open>Error + URL\<close>. It returns the error
  \<open>URL_MISSING_SEPARATOR\<close> exactly when the input contains no \<^verbatim>\<open>://\<close>. Otherwise, with \<open>s\<close>
  the text before the first \<^verbatim>\<open>://\<close> and \<open>r\<close> the text after it: it returns
  \<open>URL_UNSUPPORTED_SCHEME\<close> exactly when \<open>s\<close> is none of the five schemes; for a scheme of
  the unix family it returns \<open>URL_UNIX_DOMAIN_SOCKET_PATH_NOT_ABSOLUTE\<close> exactly when \<open>r\<close> is
  empty or does not begin with a slash, and otherwise the URL with authority \<open>r\<close> and an
  empty path; for http and https it returns the URL whose authority is \<open>r\<close> up to its first
  slash and whose path is the rest. The three examples of the specification follow.
\<close>

theorem parse_total:
  "((\<exists>m. parse input = Inl \<lparr>code = URL_MISSING_SEPARATOR, message = m\<rparr>) \<longleftrightarrow>
      \<not> (\<exists>s r. input = s @ ''://'' @ r))
   \<and> (\<forall>s r. first_separator input s r \<longrightarrow>
        ((\<exists>m. parse input = Inl \<lparr>code = URL_UNSUPPORTED_SCHEME, message = m\<rparr>) \<longleftrightarrow>
           s \<notin> {''http'', ''https'', ''unix'', ''http+unix'', ''https+unix''})
      \<and> (s \<in> {''unix'', ''http+unix'', ''https+unix''} \<longrightarrow>
           ((\<exists>m. parse input =
               Inl \<lparr>code = URL_UNIX_DOMAIN_SOCKET_PATH_NOT_ABSOLUTE, message = m\<rparr>) \<longleftrightarrow>
            (r = [] \<or> hd r \<noteq> CHR ''/''))
         \<and> (\<not> (r = [] \<or> hd r \<noteq> CHR ''/'') \<longrightarrow>
              parse input = Inr \<lparr>scheme = s, authority = r, path = []\<rparr>))
      \<and> (s \<in> {''http'', ''https''} \<longrightarrow>
           parse input = Inr \<lparr>scheme = s, authority = takeWhile (\<lambda>c. c \<noteq> CHR ''/'') r,
                              path = dropWhile (\<lambda>c. c \<noteq> CHR ''/'') r\<rparr>))
   \<and> parse ''http://localhost:8126'' =
       Inr \<lparr>scheme = ''http'', authority = ''localhost:8126'', path = []\<rparr>
   \<and> parse ''unix:///var/run/datadog/apm.sock'' =
       Inr \<lparr>scheme = ''unix'', authority = ''/var/run/datadog/apm.sock'', path = []\<rparr>
   \<and> (\<exists>m. parse ''ftp://x'' = Inl \<lparr>code = URL_UNSUPPORTED_SCHEME, message = m\<rparr>)"
proof -
  have missing: "(\<exists>m. parse input = Inl \<lparr>code = URL_MISSING_SEPARATOR, message = m\<rparr>) \<longleftrightarrow>
      \<not> (\<exists>s r. input = s @ ''://'' @ r)"
    using parse_missing [of input] parse_found [of input] std_search_none [of "''://''" input]
    by blast
  have split: "((\<exists>m. parse input = Inl \<lparr>code = URL_UNSUPPORTED_SCHEME, message = m\<rparr>) \<longleftrightarrow>
           s \<notin> {''http'', ''https'', ''unix'', ''http+unix'', ''https+unix''})
      \<and> (s \<in> {''unix'', ''http+unix'', ''https+unix''} \<longrightarrow>
           ((\<exists>m. parse input =
               Inl \<lparr>code = URL_UNIX_DOMAIN_SOCKET_PATH_NOT_ABSOLUTE, message = m\<rparr>) \<longleftrightarrow>
            (r = [] \<or> hd r \<noteq> CHR ''/''))
         \<and> (\<not> (r = [] \<or> hd r \<noteq> CHR ''/'') \<longrightarrow>
              parse input = Inr \<lparr>scheme = s, authority = r, path = []\<rparr>))
      \<and> (s \<in> {''http'', ''https''} \<longrightarrow>
           parse input = Inr \<lparr>scheme = s, authority = takeWhile (\<lambda>c. c \<noteq> CHR ''/'') r,
                              path = dropWhile (\<lambda>c. c \<noteq> CHR ''/'') r\<rparr>)"
    if f: "first_separator input s r" for s r
    using parse_cases(1) [OF f] parse_cases(2) [OF f] parse_cases(3) [OF f] parse_cases(4) [OF f]
    by blast
  then have all: "\<forall>s r. first_separator input s r \<longrightarrow>
        ((\<exists>m. parse input = Inl \<lparr>code = URL_UNSUPPORTED_SCHEME, message = m\<rparr>) \<longleftrightarrow>
           s \<notin> {''http'', ''https'', ''unix'', ''http+unix'', ''https+unix''})
      \<and> (s \<in> {''unix'', ''http+unix'', ''https+unix''} \<longrightarrow>
           ((\<exists>m. parse input =
               Inl \<lparr>code = URL_UNIX_DOMAIN_SOCKET_PATH_NOT_ABSOLUTE, message = m\<rparr>) \<longleftrightarrow>
            (r = [] \<or> hd r \<noteq> CHR ''/''))
         \<and> (\<not> (r = [] \<or> hd r \<noteq> CHR ''/'') \<longrightarrow>
              parse input = Inr \<lparr>scheme = s, authority = r, path = []\<rparr>))
      \<and> (s \<in> {''http'', ''https''} \<longrightarrow>
           parse input = Inr \<lparr>scheme = s, authority = takeWhile (\<lambda>c. c \<noteq> CHR ''/'') r,
                              path = dropWhile (\<lambda>c. c \<noteq> CHR ''/'') r\<rparr>)"
    by (intro allI impI)
  have ex1: "parse ''http://localhost:8126'' =
       Inr \<lparr>scheme = ''http'', authority = ''localhost:8126'', path = []\<rparr>"
    by (simp add: parse_def range_sv_def supported_def)
  have ex2: "parse ''unix:///var/run/datadog/apm.sock'' =
       Inr \<lparr>scheme = ''unix'', authority = ''/var/run/datadog/apm.sock'', path = []\<rparr>"
    by (simp add: parse_def range_sv_def supported_def)
  have ex3: "\<exists>m. parse ''ftp://x'' = Inl \<lparr>code = URL_UNSUPPORTED_SCHEME, message = m\<rparr>"
    by (simp add: parse_def range_sv_def supported_def)
  from missing all ex1 ex2 ex3 show ?thesis
    by - (intro conjI; assumption)
qed

text \<open>
  Each case at an input: a unix socket path that is not absolute, one that is, an https URL
  with a path, an input with two separators (the scheme ends at the first), and an input
  with none.
\<close>

theorem parse_total_witness:
  "first_separator ''unix://var'' ''unix'' ''var''
   \<and> (\<exists>m. parse ''unix://var'' =
          Inl \<lparr>code = URL_UNIX_DOMAIN_SOCKET_PATH_NOT_ABSOLUTE, message = m\<rparr>)
   \<and> first_separator ''http+unix:///run/apm.sock'' ''http+unix'' ''/run/apm.sock''
   \<and> parse ''http+unix:///run/apm.sock'' =
       Inr \<lparr>scheme = ''http+unix'', authority = ''/run/apm.sock'', path = []\<rparr>
   \<and> first_separator ''https://agent:8126/v0.4/traces'' ''https'' ''agent:8126/v0.4/traces''
   \<and> parse ''https://agent:8126/v0.4/traces'' =
       Inr \<lparr>scheme = ''https'', authority = ''agent:8126'', path = ''/v0.4/traces''\<rparr>
   \<and> first_separator ''a://b://c'' ''a'' ''b://c''
   \<and> (\<exists>m. parse ''a://b://c'' = Inl \<lparr>code = URL_UNSUPPORTED_SCHEME, message = m\<rparr>)
   \<and> (\<exists>m. parse ''localhost:8126'' = Inl \<lparr>code = URL_MISSING_SEPARATOR, message = m\<rparr>)"
proof -
  have 1: "first_separator ''unix://var'' ''unix'' ''var''"
    by (simp add: first_separator_search)
  have 2: "first_separator ''http+unix:///run/apm.sock'' ''http+unix'' ''/run/apm.sock''"
    by (simp add: first_separator_search)
  have 3: "first_separator ''https://agent:8126/v0.4/traces'' ''https'' ''agent:8126/v0.4/traces''"
    by (simp add: first_separator_search)
  have 4: "first_separator ''a://b://c'' ''a'' ''b://c''"
    by (simp add: first_separator_search)
  have 5: "\<not> (\<exists>s r. ''localhost:8126'' = s @ ''://'' @ r)"
    using std_search_none [of "''://''" "''localhost:8126''"] by simp
  note t1 = parse_total [of "''unix://var''", THEN conjunct2, THEN conjunct1, rule_format, OF 1]
  note t2 = parse_total [of "''http+unix:///run/apm.sock''", THEN conjunct2, THEN conjunct1,
      rule_format, OF 2]
  note t3 = parse_total [of "''https://agent:8126/v0.4/traces''", THEN conjunct2, THEN conjunct1,
      rule_format, OF 3]
  note t4 = parse_total [of "''a://b://c''", THEN conjunct2, THEN conjunct1, rule_format, OF 4]
  note t5 = parse_total [of "''localhost:8126''", THEN conjunct1]
  have c1: "\<exists>m. parse ''unix://var'' =
          Inl \<lparr>code = URL_UNIX_DOMAIN_SOCKET_PATH_NOT_ABSOLUTE, message = m\<rparr>"
    using t1 by simp
  have c2: "parse ''http+unix:///run/apm.sock'' =
       Inr \<lparr>scheme = ''http+unix'', authority = ''/run/apm.sock'', path = []\<rparr>"
    using t2 by simp
  have c3: "parse ''https://agent:8126/v0.4/traces'' =
       Inr \<lparr>scheme = ''https'', authority = ''agent:8126'', path = ''/v0.4/traces''\<rparr>"
    using t3 by simp
  have c4: "\<exists>m. parse ''a://b://c'' = Inl \<lparr>code = URL_UNSUPPORTED_SCHEME, message = m\<rparr>"
    using t4 by simp
  have c5: "\<exists>m. parse ''localhost:8126'' = Inl \<lparr>code = URL_MISSING_SEPARATOR, message = m\<rparr>"
    using t5 5 by simp
  from 1 2 3 4 c1 c2 c3 c4 c5 show ?thesis
    by - (intro conjI; assumption)
qed

section \<open>Finishing a span\<close>




text \<open>
  Where the difference does not fit: an end time ten counts above the least 64-bit value,
  against the start tick 40. The subtraction is undefined, and so is what the destructor
  does.
\<close>

lemma destructor_overflow:
  "sint (- 9223372036854775798 :: 64 word) - sint (40 :: 64 word) = - 9223372036854775838
   \<and> \<not> int64_range (- 9223372036854775838)
   \<and> Span_destructor count_finished (set_end_time test_span (- 9223372036854775798)) test_world
       = Undefined_behaviour"
  by (simp add: Span_destructor_def chrono_minus_def int64_range_def set_end_time_def
      test_span_def test_world_def root_data_def)

text \<open>
  C8. Destroying a handle whose segment pointer is null returns with the store as it was,
  whatever \<open>span_finished\<close> is and wherever the data pointer points: no dereference, no
  duration written, no reading of the clock, no call of \<open>span_finished\<close>.
\<close>

theorem destructor_moved_from:
  "trace_segment s = None \<Longrightarrow> Span_destructor span_finished s w = Returns w"
  by (simp add: Span_destructor_def)

text \<open>A moved-from handle whose data pointer is outside the store.\<close>

theorem destructor_moved_from_witness:
  "trace_segment (test_span\<lparr>trace_segment := None, data := 5\<rparr>) = None
   \<and> \<not> data (test_span\<lparr>trace_segment := None, data := 5\<rparr>) < length (heap test_world)
   \<and> Span_destructor count_finished (test_span\<lparr>trace_segment := None, data := 5\<rparr>) test_world
       = Returns test_world"
proof -
  have 1: "trace_segment (test_span\<lparr>trace_segment := None, data := 5\<rparr>) = None"
    by simp
  show ?thesis
    using 1 destructor_moved_from [OF 1, of count_finished test_world]
    by (simp add: test_world_def)
qed

section \<open>Creating a child span\<close>

text \<open>What a returning call of \<open>create_child\<close> has read and written.\<close>

lemma create_child_Returns:
  assumes "create_child apply_config s config w = Returns (c, w')"
    and "trace_segment s = Some seg"
  shows "seg < length (segments w)" and "data s < length (heap w)"
    and "trace_segment c = Some seg" and "data c = length (heap w)"
    and "heap w' = heap w @
          [(fst (apply_config (defaults (segments w ! seg)) config (clock s) (ext w)))
             \<lparr>trace_id := trace_id (heap w ! data s),
              parent_id := span_id (heap w ! data s),
              span_id := fst (generate_span_id s
                (snd (apply_config (defaults (segments w ! seg)) config (clock s) (ext w))))\<rparr>]"
    and "length (segments w') = length (segments w)"
    and "spans (segments w' ! seg) = spans (segments w ! seg) @ [data c]"
  using assms
  by (auto simp add: create_child_def Let_def register_span_def
      split: prod.splits if_splits)

lemma create_child_one_trace_id:
  assumes "create_child apply_config s config w = Returns (c, w')"
    and "trace_segment s = Some seg"
    and "one_trace_id w seg t" and "data s \<in> set (spans (segments w ! seg))"
  shows "one_trace_id w' seg t"
  using create_child_Returns [OF assms(1,2)] assms(3,4)
  by (auto simp add: one_trace_id_def nth_append)

text \<open>
  C6. For a parent handle that holds a segment of the store, with its span data in the
  store, \<open>create_child\<close> returns a handle on the same segment whose data is a new object:
  the result of \<open>apply_config\<close> on the segment's defaults and the config, with the parent's
  trace id, the parent's span id as parent id and the next id of the generator as span id.
  The new object is registered last in the segment's spans. If every span of the segment
  had the trace id \<open>t\<close> and the parent is one of them, every span of the segment still has
  it.
\<close>

theorem create_child_inherits:
  assumes "trace_segment s = Some seg" and "seg < length (segments w)"
    and "data s < length (heap w)"
  shows "\<exists>child w'.
     create_child apply_config s config w = Returns (child, w')
     \<and> trace_segment child = Some seg
     \<and> data child = length (heap w)
     \<and> heap w' = heap w @
          [(fst (apply_config (defaults (segments w ! seg)) config (clock s) (ext w)))
             \<lparr>trace_id := trace_id (heap w ! data s),
              parent_id := span_id (heap w ! data s),
              span_id := fst (generate_span_id s
                (snd (apply_config (defaults (segments w ! seg)) config (clock s) (ext w))))\<rparr>]
     \<and> trace_id (heap w' ! data child) = trace_id (heap w ! data s)
     \<and> parent_id (heap w' ! data child) = span_id (heap w ! data s)
     \<and> span_id (heap w' ! data child) = fst (generate_span_id s
           (snd (apply_config (defaults (segments w ! seg)) config (clock s) (ext w))))
     \<and> spans (segments w' ! seg) = spans (segments w ! seg) @ [data child]
     \<and> (\<forall>t. one_trace_id w seg t \<and> data s \<in> set (spans (segments w ! seg))
            \<longrightarrow> one_trace_id w' seg t)"
  using assms
  apply (simp add: create_child_def Let_def register_span_def one_trace_id_def split: prod.split)
  apply (auto simp add: nth_append)
  done

lemma one_trace_id_test_world: "one_trace_id test_world 0 7"
  by (simp add: one_trace_id_def test_world_def root_data_def)

text \<open>
  A child of the example root: trace id 7, parent id 7, span id 101 (the clock took
  reading 0, the generator is at 1), registered second in segment 0; both spans of the
  segment have the trace id 7.
\<close>

theorem create_child_inherits_witness:
  "trace_segment test_span = Some 0 \<and> 0 < length (segments test_world)
   \<and> data test_span < length (heap test_world)
   \<and> one_trace_id test_world 0 7 \<and> data test_span \<in> set (spans (segments test_world ! 0))
   \<and> create_child test_apply_config test_span ''db.query'' test_world =
       Returns (test_span\<lparr>data := 1\<rparr>,
         \<lparr>heap = [root_data, child_data],
          segments = [\<lparr>defaults = (), spans = [0, 1], num_finished_spans = 0\<rparr>], ext = 2\<rparr>)
   \<and> one_trace_id
         \<lparr>heap = [root_data, child_data],
          segments = [\<lparr>defaults = (), spans = [0, 1], num_finished_spans = 0\<rparr>],
          ext = 2 :: nat\<rparr> 0 7"
proof -
  have 1: "trace_segment test_span = Some 0" "0 < length (segments test_world)"
    "data test_span < length (heap test_world)"
    by (simp_all add: test_span_def test_world_def)
  have 2: "one_trace_id test_world 0 7" "data test_span \<in> set (spans (segments test_world ! 0))"
    by (rule one_trace_id_test_world) (simp add: test_span_def test_world_def)
  have e: "create_child test_apply_config test_span ''db.query'' test_world =
       Returns (test_span\<lparr>data := 1\<rparr>,
         \<lparr>heap = [root_data, child_data],
          segments = [\<lparr>defaults = (), spans = [0, 1], num_finished_spans = 0\<rparr>], ext = 2\<rparr>)"
    by (simp add: create_child_def register_span_def test_apply_config_def test_span_def
        test_world_def root_data_def child_data_def)
  from create_child_inherits [OF 1, of test_apply_config "''db.query''"]
  obtain child w' where c: "create_child test_apply_config test_span ''db.query'' test_world
          = Returns (child, w')"
    "\<forall>t. one_trace_id test_world 0 t \<and> data test_span \<in> set (spans (segments test_world ! 0))
            \<longrightarrow> one_trace_id w' 0 t"
    by blast
  from c(1) e have "w' = \<lparr>heap = [root_data, child_data],
          segments = [\<lparr>defaults = (), spans = [0, 1], num_finished_spans = 0\<rparr>], ext = 2\<rparr>"
    by simp
  with c(2) 2 have inv: "one_trace_id
         \<lparr>heap = [root_data, child_data],
          segments = [\<lparr>defaults = (), spans = [0, 1], num_finished_spans = 0\<rparr>],
          ext = 2 :: nat\<rparr> 0 7"
    by blast
  from 1 2 e inv show ?thesis
    by - (intro conjI; assumption)
qed

text \<open>
  Over any number of calls: whatever children are created from the spans of a segment,
  all its spans keep the one trace id.
\<close>

lemma children_created_one_trace_id:
  assumes "children_created apply_config seg w w'" and "one_trace_id w seg t"
  shows "one_trace_id w' seg t"
  using assms
proof (induction rule: children_created.induct)
  case (none w)
  then show ?case .
next
  case (child w w1 s config c w2)
  from child.IH [OF child.prems] have "one_trace_id w1 seg t" .
  from create_child_one_trace_id [OF child.hyps(4,2) this child.hyps(3)]
  show ?case .
qed

section \<open>Marking a span as an error\<close>

text \<open>
  C7. On a handle with its span data in the store: \<open>set_error False\<close> clears the error flag
  and erases \<^verbatim>\<open>error.msg\<close>; \<open>set_error True\<close> sets the flag and leaves the tags as they
  are; \<open>set_error_message msg\<close> sets the flag and stores \<open>msg\<close> under \<^verbatim>\<open>error.msg\<close>. Every
  other tag, every other field of the span and every other object of the store is
  unchanged.
\<close>

theorem set_error_effect:
  assumes "data s < length (heap w)"
  shows "(\<exists>w'. set_error s False w = Returns w'
            \<and> w' = w\<lparr>heap := (heap w)[data s := (heap w ! data s)
                   \<lparr>error := False, tags := (tags (heap w ! data s))(''error.msg'' := None)\<rparr>]\<rparr>
            \<and> error (heap w' ! data s) = False
            \<and> tags (heap w' ! data s) ''error.msg'' = None
            \<and> (\<forall>k. k \<noteq> ''error.msg'' \<longrightarrow>
                  tags (heap w' ! data s) k = tags (heap w ! data s) k))
       \<and> (\<exists>w'. set_error s True w = Returns w'
            \<and> w' = w\<lparr>heap := (heap w)[data s := (heap w ! data s)\<lparr>error := True\<rparr>]\<rparr>
            \<and> error (heap w' ! data s) = True
            \<and> tags (heap w' ! data s) = tags (heap w ! data s))
       \<and> (\<exists>w'. set_error_message s msg w = Returns w'
            \<and> w' = w\<lparr>heap := (heap w)[data s := (heap w ! data s)
                   \<lparr>error := True, tags := (tags (heap w ! data s))(''error.msg'' \<mapsto> msg)\<rparr>]\<rparr>
            \<and> error (heap w' ! data s) = True
            \<and> tags (heap w' ! data s) ''error.msg'' = Some msg
            \<and> (\<forall>k. k \<noteq> ''error.msg'' \<longrightarrow>
                  tags (heap w' ! data s) k = tags (heap w ! data s) k))"
  using assms by (simp add: set_error_def set_error_message_def Let_def)

text \<open>
  On the example root, which carries \<^verbatim>\<open>error.msg\<close> and \<^verbatim>\<open>team\<close>: clearing drops
  \<^verbatim>\<open>error.msg\<close> and keeps \<^verbatim>\<open>team\<close>; setting keeps both; a message replaces the old one.
\<close>

theorem set_error_effect_witness:
  "data test_span < length (heap test_world)
   \<and> set_error test_span False test_world =
       Returns (test_world\<lparr>heap := [root_data\<lparr>tags := [''team'' \<mapsto> ''apm'']\<rparr>]\<rparr>)
   \<and> set_error test_span True test_world =
       Returns (test_world\<lparr>heap := [root_data\<lparr>error := True\<rparr>]\<rparr>)
   \<and> set_error_message test_span ''boom'' test_world =
       Returns (test_world\<lparr>heap := [root_data\<lparr>error := True,
          tags := [''error.msg'' \<mapsto> ''boom'', ''team'' \<mapsto> ''apm'']\<rparr>]\<rparr>)"
proof -
  have 1: "data test_span < length (heap test_world)"
    by (simp add: test_span_def test_world_def)
  have t1: "(tags root_data)(''error.msg'' := None) = [''team'' \<mapsto> ''apm'']"
    by (auto simp add: root_data_def)
  have t2: "(tags root_data)(''error.msg'' \<mapsto> ''boom'') = [''error.msg'' \<mapsto> ''boom'', ''team'' \<mapsto> ''apm'']"
    by (auto simp add: root_data_def)
  have e: "error root_data = False"
    by (simp add: root_data_def)
  show ?thesis
    using 1 set_error_effect [OF 1, of "''boom''"] t1 t2 e
    by (auto simp add: test_span_def test_world_def)
qed

section \<open>Reserved tag keys\<close>

text \<open>
  What \<open>is_internal_tag\<close> answers. A key that does not begin with \<^verbatim>\<open>_dd.\<close> is not reserved.
  A key that begins with it is reserved when nothing follows, or when the next character
  is not the zero character: the comparison then stops at the literal's terminator. When
  the zero character follows, the comparison runs on past the end of the prefix: for the
  five-character key it ends one position late and the answer is \<open>False\<close>; for a longer
  key it reads outside the literal.
\<close>

lemma is_internal_tag_reserved:
  assumes "rest = [] \<or> hd rest \<noteq> CHR 0x00"
  shows "is_internal_tag (''_dd.'' @ rest) = Returns True"
  using assms
  by (cases rest) (simp_all add: is_internal_tag_def starts_with_def literal_def)

lemma is_internal_tag_nul:
  "is_internal_tag (''_dd.'' @ [CHR 0x00]) = Returns False"
  "is_internal_tag (''_dd.'' @ CHR 0x00 # c # rest) = Undefined_behaviour"
  by (simp_all add: is_internal_tag_def starts_with_def literal_def)

lemma four_chars:
  "length xs = Suc (Suc (Suc (Suc 0))) \<Longrightarrow> \<exists>a b c d. xs = [a, b, c, d]"
  by (auto simp add: length_Suc_conv)

lemma is_internal_tag_other:
  assumes "take 4 k \<noteq> ''_dd.''"
  shows "is_internal_tag k = Returns False"
proof (cases "length k < 4")
  case True
  then show ?thesis
    by (simp add: is_internal_tag_def starts_with_def literal_def)
next
  case False
  then have "length (take 4 k) = Suc (Suc (Suc (Suc 0)))" by simp
  from four_chars [OF this] obtain a b c d where t: "take 4 k = [a, b, c, d]"
    by blast
  have "k = take 4 k @ drop 4 k" by simp
  with t have k: "k = a # b # c # d # drop 4 k" by simp
  from assms t have "[a, b, c, d] \<noteq> ''_dd.''" by simp
  then show ?thesis
    by (subst k) (auto simp add: is_internal_tag_def starts_with_def literal_def)
qed

lemma is_internal_tag_True_iff:
  "is_internal_tag k = Returns True \<longleftrightarrow>
     (\<exists>rest. k = ''_dd.'' @ rest \<and> (rest = [] \<or> hd rest \<noteq> CHR 0x00))"
proof
  assume t: "is_internal_tag k = Returns True"
  then have "take 4 k = ''_dd.''"
    using is_internal_tag_other [of k] by auto
  then have k: "k = ''_dd.'' @ drop 4 k"
    by (metis append_take_drop_id)
  show "\<exists>rest. k = ''_dd.'' @ rest \<and> (rest = [] \<or> hd rest \<noteq> CHR 0x00)"
  proof (cases "drop 4 k")
    case Nil
    with k show ?thesis by auto
  next
    case (Cons c cs)
    have "c \<noteq> CHR 0x00"
    proof
      assume "c = CHR 0x00"
      with k Cons have "k = ''_dd.'' @ CHR 0x00 # cs" by simp
      with t is_internal_tag_nul show False
        by (cases cs) auto
    qed
    with k Cons show ?thesis by (intro exI [of _ "drop 4 k"]) simp
  qed
next
  assume "\<exists>rest. k = ''_dd.'' @ rest \<and> (rest = [] \<or> hd rest \<noteq> CHR 0x00)"
  then show "is_internal_tag k = Returns True"
    using is_internal_tag_reserved by blast
qed

text \<open>The three tag operations on the keys the test answers for.\<close>

lemma reserved_key_ignored:
  assumes "rest = [] \<or> hd rest \<noteq> CHR 0x00"
  shows "set_tag s (''_dd.'' @ rest) v w = Returns w"
    and "remove_tag s (''_dd.'' @ rest) w = Returns w"
    and "lookup_tag s (''_dd.'' @ rest) w = Returns None"
  using is_internal_tag_reserved [OF assms]
  by (simp_all add: set_tag_def remove_tag_def lookup_tag_def Let_def)

lemma ordinary_key_used:
  assumes "take 4 k \<noteq> ''_dd.''" and "data s < length (heap w)"
  shows "set_tag s k v w =
           Returns (w\<lparr>heap := (heap w)[data s := (heap w ! data s)
              \<lparr>tags := (tags (heap w ! data s))(k \<mapsto> v)\<rparr>]\<rparr>)"
    and "remove_tag s k w =
           Returns (w\<lparr>heap := (heap w)[data s := (heap w ! data s)
              \<lparr>tags := (tags (heap w ! data s))(k := None)\<rparr>]\<rparr>)"
    and "lookup_tag s k w = Returns (tags (heap w ! data s) k)"
  using is_internal_tag_other [OF assms(1)] assms(2)
  by (simp_all add: set_tag_def remove_tag_def lookup_tag_def Let_def)

text \<open>
  C4 at the key made of \<^verbatim>\<open>_dd.\<close> and one zero character, which begins with the reserved
  prefix: \<open>set_tag\<close> writes it to the tags of the example root, \<open>lookup_tag\<close> returns its
  value and \<open>remove_tag\<close> erases it.
\<close>

theorem reserved_key_followed_by_nul:
  "is_internal_tag (''_dd.'' @ [CHR 0x00]) = Returns False
   \<and> set_tag test_span (''_dd.'' @ [CHR 0x00]) ''v'' test_world =
       Returns (test_world\<lparr>heap := [root_data
          \<lparr>tags := [''error.msg'' \<mapsto> ''old'', ''team'' \<mapsto> ''apm'', ''_dd.'' @ [CHR 0x00] \<mapsto> ''v'']\<rparr>]\<rparr>)
   \<and> lookup_tag test_span (''_dd.'' @ [CHR 0x00])
        (test_world\<lparr>heap := [root_data
          \<lparr>tags := [''error.msg'' \<mapsto> ''old'', ''team'' \<mapsto> ''apm'', ''_dd.'' @ [CHR 0x00] \<mapsto> ''v'']\<rparr>]\<rparr>)
       = Returns (Some ''v'')
   \<and> remove_tag test_span (''_dd.'' @ [CHR 0x00])
        (test_world\<lparr>heap := [root_data
          \<lparr>tags := [''error.msg'' \<mapsto> ''old'', ''team'' \<mapsto> ''apm'', ''_dd.'' @ [CHR 0x00] \<mapsto> ''v'']\<rparr>]\<rparr>)
       = Returns (test_world\<lparr>heap := [root_data
          \<lparr>tags := [''error.msg'' \<mapsto> ''old'', ''team'' \<mapsto> ''apm'']\<rparr>]\<rparr>)"
proof -
  have i: "is_internal_tag (''_dd.'' @ [CHR 0x00]) = Returns False"
    by (simp add: is_internal_tag_def starts_with_def literal_def)
  have t: "tags root_data = [''error.msg'' \<mapsto> ''old'', ''team'' \<mapsto> ''apm'']"
    by (simp add: root_data_def)
  have r: "[''error.msg'' \<mapsto> ''old'', ''team'' \<mapsto> ''apm'', ''_dd.'' @ [CHR 0x00] \<mapsto> ''v'']
             (''_dd.'' @ [CHR 0x00] := None)
           = [''error.msg'' \<mapsto> ''old'', ''team'' \<mapsto> ''apm'']"
    by (rule ext) simp
  show ?thesis
    using i t r
    by (simp add: set_tag_def lookup_tag_def remove_tag_def test_span_def test_world_def)
qed

text \<open>
  C10 at the same key: its first four characters are \<^verbatim>\<open>_dd.\<close> and the test answers
  \<open>False\<close>; with one more character the test reads outside the literal. The other keys
  of the claim are answered as it says.
\<close>

theorem reserved_key_test_cases:
  "take 4 (''_dd.'' @ [CHR 0x00]) = ''_dd.''
   \<and> is_internal_tag (''_dd.'' @ [CHR 0x00]) = Returns False
   \<and> is_internal_tag (''_dd.'' @ [CHR 0x00, CHR ''x'']) = Undefined_behaviour
   \<and> is_internal_tag ''_dd.'' = Returns True
   \<and> is_internal_tag ''_dd.p.dm'' = Returns True
   \<and> is_internal_tag ''_dd'' = Returns False
   \<and> is_internal_tag ''_DD.x'' = Returns False
   \<and> is_internal_tag ''x_dd.y'' = Returns False"
  by (simp add: is_internal_tag_def starts_with_def literal_def)

end
